theory Spec2Isabelle
  imports Main "HOL-Library.Word" "HOL-Library.Signed_Division"
begin

unbundle bit_operations_syntax

section \<open>Common vocabulary of zvol.c and zvol\_os.c\<close>

text \<open>
  The C functions report failure through an \<open>int\<close> error code, zero meaning success.
  The codes are kept symbolic; the value \<open>errno option\<close> is the returned \<open>int\<close>, with
  \<open>None\<close> for \<open>0\<close>.  \<open>SET_ERROR(e)\<close> evaluates to \<open>e\<close>.
\<close>

datatype errno = EINVAL | EIO | EROFS | ENXIO | EINPROGRESS | EOVERFLOW | EOPNOTSUPP
  | ENOTSUP | EOTHER nat

type_synonym error = "errno option"

text \<open>
  A C expression whose evaluation is undefined or panics the kernel (a remainder by zero,
  a failed \<open>VERIFY\<close>, a \<open>NULL\<close> dereference) yields \<open>Fault\<close> instead of a value.
  \<open>ASSERT\<close> is compiled into debug kernels only; its conditions are what callers are
  expected to establish and are not checked here.
\<close>

datatype 'a cres = Ret 'a | Fault

type_synonym u64 = "64 word"
type_synonym u32 = "32 word"

text \<open>The mode argument of the reader/writer lock calls (\<open>RW_NONE\<close> included).\<close>

datatype krw_t = RW_NONE | RW_READER | RW_WRITER

text \<open>
  The ZIL handle (\<open>zilog_t\<close>) as far as zvol.c looks into it: \<open>zl_logbias\<close> compared
  with \<open>ZFS_LOGBIAS_THROUGHPUT\<close>, the results of \<open>spa_has_slogs(zilog->zl_spa)\<close>,
  \<open>zil_max_copied_data(zilog)\<close> and \<open>zil_replaying(zilog, tx)\<close>, and an identity that
  tells two handles apart.
\<close>

record zilog =
  zl_id :: nat
  zl_logbias_throughput :: bool
  zl_has_slogs :: bool
  zl_max_copied_data :: u64
  zl_replaying :: bool

text \<open>
  The part of an object set (\<open>objset_t\<close>) that the volume code reads and writes: the
  persisted \<open>size\<close> entry of \<open>ZVOL_ZAP_OBJ\<close>, the data block size that
  \<open>dmu_object_info\<close> reports for \<open>ZVOL_OBJ\<close>, and whether \<open>os_sync\<close> is
  \<open>ZFS_SYNC_ALWAYS\<close>.
\<close>

record objset =
  os_zap_size :: u64
  os_data_block_size :: u64
  os_sync_always :: bool

text \<open>
  An I/O context (\<open>zvol_dmu_state_t\<close>).  \<open>zds_id\<close> stands for the address of the
  context, \<open>zds_reader\<close> for \<open>zds_dmu_flags & DMU_CTX_FLAG_READ\<close>, \<open>zds_async\<close>
  for \<open>DMU_CTX_FLAG_ASYNC\<close> in \<open>zds_dc.dc_buf_ctx.dbc_flags\<close>, \<open>zds_dc_err\<close> for
  \<open>zds_dc.dc_err\<close>.
\<close>

record zvol_dmu_state =
  zds_id :: nat
  zds_off :: u64
  zds_io_size :: u64
  zds_reader :: bool
  zds_sync :: bool
  zds_retry :: bool
  zds_async :: bool
  zds_dc_err :: error

text \<open>
  The volume (\<open>zvol_state_t\<close>).  \<open>zv_rdonly\<close> and \<open>zv_written_to\<close> are the bits
  \<open>ZVOL_RDONLY\<close> and \<open>ZVOL_WRITTEN_TO\<close> of \<open>zv_flags\<close>.  \<open>zv_objset\<close> and \<open>zv_dn\<close>
  say whether the pointers of the same name are non-\<open>NULL\<close>; the object set they lead
  to is the dataset of the volume and is passed alongside.  The two lock fields record
  what the executing flow holds: whether it owns the mutex \<open>zv_state_lock\<close>, and in
  which mode it holds \<open>zv_suspend_lock\<close> (\<open>RW_NONE\<close>: not at all).
\<close>

record zvol_state =
  zv_name :: string
  zv_hash :: u64
  zv_volsize :: u64
  zv_volblocksize :: u64
  zv_open_count :: nat
  zv_suspend_ref :: int
  zv_active :: int
  zv_deferred :: "zvol_dmu_state list"
  zv_rdonly :: bool
  zv_written_to :: bool
  zv_objset :: bool
  zv_dn :: bool
  zv_zilog :: "zilog option"
  zv_changed :: bool
  zv_state_lock :: bool
  zv_suspend_lock :: krw_t

section \<open>Intent-log records for writes\<close>

text \<open>\<open>itx_wr_state_t\<close>: how the data of a \<open>TX_WRITE\<close> record reaches the log.\<close>

datatype itx_wr_state_t = WR_INDIRECT | WR_COPIED | WR_NEED_COPY

text \<open>
  A \<open>TX_WRITE\<close> intent-log transaction as \<open>zvol_log_write\<close> fills it in.
  \<open>itx_payload\<close> is the number of data bytes allocated after the \<open>lr_write_t\<close>
  (the second summand of the size given to \<open>zil_itx_create\<close>).
\<close>

record itx =
  itx_wr_state :: itx_wr_state_t
  itx_lr_offset :: u64
  itx_lr_length :: u64
  itx_payload :: u64
  itx_sync :: bool

text \<open>
  The first \<open>if\<close> chain of \<open>zvol_log_write\<close>, which fixes \<open>write_state\<close> for the whole
  call.  \<open>blocksize\<close> is the \<open>uint32_t\<close> local, \<open>immediate_write_sz\<close> the tunable
  \<open>zvol_immediate_write_sz\<close> (an \<open>ssize_t\<close>, 32768 unless changed); C compares the two
  as signed 64-bit values and \<open>size\<close> with \<open>blocksize\<close> as unsigned ones.
\<close>

definition zvol_log_write_state :: "zilog \<Rightarrow> u64 \<Rightarrow> u32 \<Rightarrow> u64 \<Rightarrow> bool \<Rightarrow> itx_wr_state_t" where
  "zvol_log_write_state zilog immediate_write_sz blocksize sz sync =
     (if zl_logbias_throughput zilog then WR_INDIRECT
      else if \<not> zl_has_slogs zilog \<and> sz \<ge> ucast blocksize
              \<and> uint blocksize > sint immediate_write_sz then WR_INDIRECT
      else if sync then WR_COPIED
      else WR_NEED_COPY)"

text \<open>
  The \<open>while (size)\<close> loop of \<open>zvol_log_write\<close>, one record per round.  The macro
  \<open>P2PHASE\<close> is defined outside the two source files and is a parameter, as is the
  outcome of \<open>dmu_read_by_dnode\<close> for an offset and a length (\<open>read_ok\<close>).  The loop
  ends when \<open>size\<close> reaches zero; a run that never gets there has no result
  (\<open>None\<close>).
\<close>

partial_function (option) zvol_log_write_loop ::
  "(u64 \<Rightarrow> u32 \<Rightarrow> u64) \<Rightarrow> (u64 \<Rightarrow> u64 \<Rightarrow> bool) \<Rightarrow> zilog \<Rightarrow> u32 \<Rightarrow> itx_wr_state_t \<Rightarrow> bool
     \<Rightarrow> itx list \<Rightarrow> u64 \<Rightarrow> u64 \<Rightarrow> itx list option" where
  "zvol_log_write_loop p2phase read_ok zilog blocksize write_state sync log offset sz =
     (if sz = 0 then Some log
      else
        (let wr_state0 = write_state;
             len0 = sz;
             wr_state1 = (if wr_state0 = WR_COPIED \<and> sz > zl_max_copied_data zilog
                          then WR_NEED_COPY else wr_state0);
             len = (if \<not> (wr_state0 = WR_COPIED \<and> sz > zl_max_copied_data zilog)
                       \<and> wr_state0 = WR_INDIRECT
                    then min (ucast blocksize - p2phase offset blocksize) sz else len0);
             wr_state = (if wr_state1 = WR_COPIED \<and> \<not> read_ok offset len
                         then WR_NEED_COPY else wr_state1);
             rec = \<lparr>itx_wr_state = wr_state, itx_lr_offset = offset, itx_lr_length = len,
                    itx_payload = (if wr_state = WR_COPIED then len else 0),
                    itx_sync = sync\<rparr>
         in zvol_log_write_loop p2phase read_ok zilog blocksize write_state sync
              (log @ [rec]) (offset + len) (sz - len)))"

text \<open>
  What one round of the loop does to the state of its record, read off the two \<open>if\<close>s
  of the loop body: a record keeps \<open>WR_INDIRECT\<close>; it stays \<open>WR_COPIED\<close> only if
  its length is within \<open>zil_max_copied_data\<close> and the data can be read back; in every
  other case it is \<open>WR_NEED_COPY\<close>.
\<close>

definition itx_form_ok :: "(u64 \<Rightarrow> u64 \<Rightarrow> bool) \<Rightarrow> zilog \<Rightarrow> itx_wr_state_t \<Rightarrow> itx \<Rightarrow> bool" where
  "itx_form_ok read_ok zilog write_state r =
     (itx_wr_state r =
        (if write_state = WR_INDIRECT then WR_INDIRECT
         else if write_state = WR_COPIED \<and> itx_lr_length r \<le> zl_max_copied_data zilog
                 \<and> read_ok (itx_lr_offset r) (itx_lr_length r) then WR_COPIED
         else WR_NEED_COPY))"

text \<open>
  \<open>zvol_log_write\<close>: the records it assigns to the log, in order.  A \<open>NULL\<close>
  \<open>zv_zilog\<close> is dereferenced by the C code, hence \<open>Fault\<close>.
\<close>

definition zvol_log_write ::
  "(u64 \<Rightarrow> u32 \<Rightarrow> u64) \<Rightarrow> (u64 \<Rightarrow> u64 \<Rightarrow> bool) \<Rightarrow> u64 \<Rightarrow> zvol_state \<Rightarrow> u64 \<Rightarrow> u64 \<Rightarrow> bool
     \<Rightarrow> itx list option cres" where
  "zvol_log_write p2phase read_ok immediate_write_sz zv offset sz sync =
     (case zv_zilog zv of
        None \<Rightarrow> Fault
      | Some zilog \<Rightarrow>
          (let blocksize = (ucast (zv_volblocksize zv) :: u32)
           in if zl_replaying zilog then Ret (Some [])
              else Ret (zvol_log_write_loop p2phase read_ok zilog blocksize
                     (zvol_log_write_state zilog immediate_write_sz blocksize sz sync)
                     sync [] offset sz)))"

text \<open>The definition of \<open>P2PHASE\<close> in the Solaris compatibility headers.\<close>

definition P2PHASE :: "u64 \<Rightarrow> u32 \<Rightarrow> u64" where
  "P2PHASE x align = x AND ucast (align - 1)"

section \<open>Locks of a volume, as the executing flow holds them\<close>

text \<open>
  The lock calls on one volume.  \<open>RW_TRYENTER m ok\<close> and \<open>RW_TRYUPGRADE ok\<close> carry
  the answer of the call; the other calls block until they succeed.
\<close>

datatype zv_lock_op = MUTEX_ENTER | MUTEX_EXIT | RW_ENTER krw_t | RW_TRYENTER krw_t bool
  | RW_EXIT | RW_TRYUPGRADE bool | RW_DOWNGRADE

text \<open>
  A lock call in the trace of a function that walks the registry: on the registry lock
  \<open>zvol_state_lock\<close>, or on the locks of the volume at a position of the hash chain.
\<close>

datatype lock_ev = LIST_ENTER krw_t | LIST_EXIT | ZV nat zv_lock_op

definition mutex_enter :: "zvol_state \<Rightarrow> zvol_state" where
  "mutex_enter zv = zv\<lparr>zv_state_lock := True\<rparr>"

definition mutex_exit :: "zvol_state \<Rightarrow> zvol_state" where
  "mutex_exit zv = zv\<lparr>zv_state_lock := False\<rparr>"

definition rw_enter :: "krw_t \<Rightarrow> zvol_state \<Rightarrow> zvol_state" where
  "rw_enter m zv = zv\<lparr>zv_suspend_lock := m\<rparr>"

definition rw_exit :: "zvol_state \<Rightarrow> zvol_state" where
  "rw_exit zv = zv\<lparr>zv_suspend_lock := RW_NONE\<rparr>"

definition rw_downgrade :: "zvol_state \<Rightarrow> zvol_state" where
  "rw_downgrade zv = zv\<lparr>zv_suspend_lock := RW_READER\<rparr>"

section \<open>Registry lookup\<close>

text \<open>
  \<open>strncmp(a, b, n) == 0\<close> for two C strings (no \<open>NUL\<close> inside): they agree on their
  first \<open>n\<close> characters.
\<close>

definition strncmp_eq :: "nat \<Rightarrow> string \<Rightarrow> string \<Rightarrow> bool" where
  "strncmp_eq n a b = (take n a = take n b)"

text \<open>
  The test of \<open>zvol_find_by_name_hash\<close> for "this is the right zvol".  \<open>MAXNAMELEN\<close>
  is defined outside the two source files and is a parameter.
\<close>

definition zvol_matches :: "nat \<Rightarrow> string \<Rightarrow> u64 \<Rightarrow> zvol_state \<Rightarrow> bool" where
  "zvol_matches maxnamelen name hash zv =
     (zv_hash zv = hash \<and> strncmp_eq maxnamelen (zv_name zv) name)"

text \<open>
  The \<open>hlist_for_each\<close> loop of \<open>zvol_find_by_name_hash\<close> over the chain
  \<open>ZVOL_HT_HEAD(hash)\<close>, from position \<open>p\<close> on.  \<open>try_ok p\<close> is the answer that
  \<open>rw_tryenter\<close> gives on the suspend lock of the volume at position \<open>p\<close>.  The
  result is the position of the volume returned (\<open>None\<close> for \<open>NULL\<close>), the chain with
  the locks as the flow now holds them, and the lock calls made, in order.
\<close>

fun zvol_find_loop ::
  "nat \<Rightarrow> (nat \<Rightarrow> bool) \<Rightarrow> string \<Rightarrow> u64 \<Rightarrow> krw_t \<Rightarrow> nat \<Rightarrow> zvol_state list
     \<Rightarrow> nat option \<times> zvol_state list \<times> lock_ev list" where
  "zvol_find_loop maxnamelen try_ok name hash mode p [] = (None, [], [])"
| "zvol_find_loop maxnamelen try_ok name hash mode p (zv # rest) =
     (let zv1 = mutex_enter zv
      in if zvol_matches maxnamelen name hash zv1
         then
           (if mode \<noteq> RW_NONE \<and> \<not> try_ok p
            then (Some p, mutex_enter (rw_enter mode (mutex_exit zv1)) # rest,
                  [ZV p MUTEX_ENTER, ZV p (RW_TRYENTER mode False), ZV p MUTEX_EXIT,
                   ZV p (RW_ENTER mode), ZV p MUTEX_ENTER])
            else if mode \<noteq> RW_NONE
            then (Some p, rw_enter mode zv1 # rest,
                  [ZV p MUTEX_ENTER, ZV p (RW_TRYENTER mode True)])
            else (Some p, zv1 # rest, [ZV p MUTEX_ENTER]))
         else
           (let (r, rest', evs) =
                  zvol_find_loop maxnamelen try_ok name hash mode (Suc p) rest
            in (r, mutex_exit zv1 # rest', ZV p MUTEX_ENTER # ZV p MUTEX_EXIT # evs)))"

definition zvol_find_by_name_hash ::
  "nat \<Rightarrow> (nat \<Rightarrow> bool) \<Rightarrow> zvol_state list \<Rightarrow> string \<Rightarrow> u64 \<Rightarrow> krw_t
     \<Rightarrow> nat option \<times> zvol_state list \<times> lock_ev list" where
  "zvol_find_by_name_hash maxnamelen try_ok chain name hash mode =
     (let (r, chain', evs) = zvol_find_loop maxnamelen try_ok name hash mode 0 chain
      in (r, chain', LIST_ENTER RW_READER # evs @ [LIST_EXIT]))"

text \<open>
  \<open>zvol_find_by_name\<close>.  \<open>zvol_name_hash\<close> reads the table \<open>zfs_crc64_table\<close>, which
  is outside the two source files; the hash function is a parameter, and \<open>chain\<close> is
  the chain of the bucket of the hash of \<open>name\<close>.
\<close>

definition zvol_find_by_name ::
  "nat \<Rightarrow> (string \<Rightarrow> u64) \<Rightarrow> (nat \<Rightarrow> bool) \<Rightarrow> zvol_state list \<Rightarrow> string \<Rightarrow> krw_t
     \<Rightarrow> nat option \<times> zvol_state list \<times> lock_ev list" where
  "zvol_find_by_name maxnamelen name_hash try_ok chain name mode =
     zvol_find_by_name_hash maxnamelen try_ok chain name (name_hash name) mode"

text \<open>
  The lock order of the header comment of zvol.c, read off a trace: no flow blocks on
  the suspend lock of a volume (\<open>rw_enter\<close>) while it owns the state lock of that volume.
  \<open>held\<close> lists the positions whose state lock the flow owns.
\<close>

fun suspend_before_state :: "nat list \<Rightarrow> lock_ev list \<Rightarrow> bool" where
  "suspend_before_state held [] = True"
| "suspend_before_state held (ZV p MUTEX_ENTER # evs) = suspend_before_state (p # held) evs"
| "suspend_before_state held (ZV p MUTEX_EXIT # evs) =
     suspend_before_state (removeAll p held) evs"
| "suspend_before_state held (ZV p (RW_ENTER m) # evs) =
     (p \<notin> set held \<and> suspend_before_state held evs)"
| "suspend_before_state held (ev # evs) = suspend_before_state held evs"

section \<open>Volume size validation and administrative resize\<close>

text \<open>
  \<open>zvol_check_volsize\<close> (zvol.c).  The \<open>_ILP32\<close> branch exists only in 32-bit builds;
  the build is a parameter (\<open>ilp32\<close>), and so is the constant \<open>SPEC_MAXOFFSET_T\<close>,
  whose definition is outside the two source files.
\<close>

definition zvol_check_volsize :: "bool \<Rightarrow> u64 \<Rightarrow> u64 \<Rightarrow> u64 \<Rightarrow> error cres" where
  "zvol_check_volsize ilp32 spec_maxoffset_t volsize blocksize =
     (if volsize = 0 then Ret (Some EINVAL)
      else if blocksize = 0 then Fault
      else if volsize mod blocksize \<noteq> 0 then Ret (Some EINVAL)
      else if ilp32 \<and> volsize - 1 > spec_maxoffset_t then Ret (Some EOVERFLOW)
      else Ret None)"

text \<open>
  The results of the calls into the object store that \<open>zvol_set_volsize\<close> and
  \<open>zvol_update_volsize\<close> make; each may fail with an error code.
\<close>

record volsize_env =
  env_prop_readonly :: "errno + bool"
  env_objset_own :: error
  env_object_info :: error
  env_tx_assign :: error
  env_zap_update :: error
  env_free_long_range :: error

definition zvol_update_volsize :: "volsize_env \<Rightarrow> u64 \<Rightarrow> objset \<Rightarrow> error \<times> objset" where
  "zvol_update_volsize env volsize os =
     (case env_tx_assign env of
        Some e \<Rightarrow> (Some e, os)
      | None \<Rightarrow>
          (case env_zap_update env of
             Some e \<Rightarrow> (Some e, os)
           | None \<Rightarrow> (env_free_long_range env, os\<lparr>os_zap_size := volsize\<rparr>)))"

text \<open>
  \<open>zvol_set_volsize\<close>, on the chain of the bucket of \<open>name\<close>.  The property is read
  first; only then is the volume looked up with \<open>zvol_find_by_name(name, RW_READER)\<close>.
  The result carries the error, the chain with the locks as the flow leaves them, the
  object set and whether \<open>ops->zv_update_volsize\<close> was called.
\<close>

definition zvol_set_volsize ::
  "bool \<Rightarrow> u64 \<Rightarrow> nat \<Rightarrow> (string \<Rightarrow> u64) \<Rightarrow> (nat \<Rightarrow> bool) \<Rightarrow> volsize_env
     \<Rightarrow> zvol_state list \<Rightarrow> string \<Rightarrow> u64 \<Rightarrow> objset
     \<Rightarrow> (error \<times> zvol_state list \<times> objset \<times> bool) cres" where
  "zvol_set_volsize ilp32 spec_maxoffset_t maxnamelen name_hash try_ok env chain name volsize os =
     (case env_prop_readonly env of
        Inl e \<Rightarrow> Ret (Some e, chain, os, False)
      | Inr True \<Rightarrow> Ret (Some EROFS, chain, os, False)
      | Inr False \<Rightarrow>
          (case zvol_find_by_name maxnamelen name_hash try_ok chain name RW_READER of
             (r, chain1, evs) \<Rightarrow>
               (let found = map_option (\<lambda>p. chain1 ! p) r;
                    put = (\<lambda>zvo. case (r, zvo) of
                                   (Some p, Some zv) \<Rightarrow> chain1[p := zv]
                                 | _ \<Rightarrow> chain1);
                    need_own = (case found of None \<Rightarrow> True | Some zv \<Rightarrow> \<not> zv_objset zv);
                    zv1 = (if need_own then map_option rw_exit found else found)
                in if need_own \<and> env_objset_own env \<noteq> None
                   then Ret (env_objset_own env, put (map_option mutex_exit zv1), os, False)
                   else
                     (let owned = need_own;
                          zv2 = (if owned then map_option (\<lambda>zv. zv\<lparr>zv_objset := True\<rparr>) zv1
                                 else zv1);
                          checked =
                            (case env_object_info env of
                               Some e \<Rightarrow> Ret (Some e)
                             | None \<Rightarrow> zvol_check_volsize ilp32 spec_maxoffset_t volsize
                                         (os_data_block_size os))
                      in case checked of
                           Fault \<Rightarrow> Fault
                         | Ret chk \<Rightarrow>
                             (let (err, os') =
                                    (if chk \<noteq> None then (chk, os)
                                     else zvol_update_volsize env volsize os);
                                  zv3 = (if err = None
                                         then map_option
                                           (\<lambda>zv. zv\<lparr>zv_volsize := volsize, zv_changed := True\<rparr>)
                                           zv2
                                         else zv2);
                                  zv4 = (if owned
                                         then map_option (\<lambda>zv. zv\<lparr>zv_objset := False\<rparr>) zv3
                                         else map_option rw_exit zv3);
                                  zv5 = map_option mutex_exit zv4
                              in Ret (err, put zv5, os', err = None \<and> zv5 \<noteq> None))))))"

section \<open>Suspend and resume\<close>







section \<open>Lazy creation of the ZIL handle\<close>

text \<open>
  What \<open>zvol_ensure_zilog\<close> meets: the answer of \<open>rw_tryupgrade\<close>, what other flows do
  to the volume while the suspend lock is dropped between \<open>rw_exit\<close> and \<open>rw_enter\<close>,
  and the handle that \<open>zil_open\<close> returns.
\<close>

record zilog_env =
  ze_tryupgrade :: bool
  ze_interfere :: "zvol_state \<Rightarrow> zvol_state"
  ze_zil_open :: zilog

text \<open>
  \<open>zvol_ensure_zilog\<close> (zvol\_os.c): the volume afterwards, the lock calls made on the
  suspend lock, and the number of calls of \<open>zil_open\<close>.
\<close>

definition zvol_ensure_zilog ::
  "zilog_env \<Rightarrow> zvol_state \<Rightarrow> zvol_state \<times> zv_lock_op list \<times> nat" where
  "zvol_ensure_zilog env zv =
     (if zv_zilog zv = None
      then
        (let (zv1, evs1) =
               (if \<not> ze_tryupgrade env
                then (rw_enter RW_WRITER (ze_interfere env (rw_exit zv)),
                      [RW_TRYUPGRADE False, RW_EXIT, RW_ENTER RW_WRITER])
                else (zv\<lparr>zv_suspend_lock := RW_WRITER\<rparr>, [RW_TRYUPGRADE True]));
             (zv2, opens) =
               (if zv_zilog zv1 = None
                then (zv1\<lparr>zv_zilog := Some (ze_zil_open env), zv_written_to := True\<rparr>, 1)
                else (zv1, 0))
         in (rw_downgrade zv2, evs1 @ [RW_DOWNGRADE], opens))
      else (zv, [], 0))"

section \<open>The admission-controlled I/O pipeline\<close>

text \<open>
  What the pipeline functions hand to code outside the two files, in order: a context
  given to \<open>dmu_thread_context_dispatch\<close> to run \<open>zvol_dmu_ctx_init_wrapper\<close>, the
  calls of \<open>dmu_ctx_init\<close>, \<open>zfs_rangelock_tryenter_async\<close> and
  \<open>zvol_dmu_ctx_init_write\<close> (which opens the transaction and takes the range lock of a
  write), \<open>dmu_issue\<close> and \<open>dmu_ctx_rele\<close>, and the delivery of a request with its
  error by \<open>zvol_done\<close>.  Contexts are named by \<open>zds_id\<close>.
\<close>

datatype io_ev = DISPATCH zvol_dmu_state | DMU_CTX_INIT nat u64 u64
  | RANGELOCK_TRYENTER_ASYNC nat u64 u64 krw_t | CTX_INIT_WRITE nat | DMU_ISSUE nat
  | DMU_CTX_RELE nat | ZVOL_DONE nat error

text \<open>
  A callback of type \<open>dmu_ctx_cb_t\<close>, run on a context: what it does to the volume of
  the context and what it hands on.
\<close>

type_synonym dmu_ctx_cb = "zvol_dmu_state \<Rightarrow> zvol_state \<Rightarrow> zvol_state \<times> io_ev list"

text \<open>
  The results of the two calls whose outcome \<open>zvol_dmu_ctx_init\<close> looks at:
  \<open>dmu_ctx_init\<close> and, for a read, \<open>zfs_rangelock_tryenter_async\<close>.
\<close>

record ctx_env =
  ce_dmu_ctx_init :: error
  ce_rangelock :: error

text \<open>
  Modelled from the spec: \<open>zvol_rele\<close>, which \<open>zvol_strategy_done\<close> calls when a
  request is through, and \<open>zvol_hold\<close>, which \<open>zvol_geom_bio_async\<close> calls when it
  creates a context, are declared outside the two source files.  The specification has each
  context hold one count of \<open>suspend_refs\<close> (section 4.4) and has completion "decrement
  \<open>suspend_refs\<close>" (section 4.5).  That one count is taken in the source files, by
  \<open>zvol_dmu_ctx_init\<close> or \<open>zvol_dmu_ctx_init_enqueue\<close>; so \<open>zvol_rele\<close> gives one
  count back at each call, and \<open>zvol_hold\<close> takes none.
\<close>

definition zvol_rele :: "zvol_state \<Rightarrow> zvol_state" where
  "zvol_rele zv = zv\<lparr>zv_suspend_ref := zv_suspend_ref zv - 1\<rparr>"

text \<open>
  \<open>zvol_strategy_done\<close> (zvol\_os.c) and the two callbacks that end in it:
  \<open>zvol_strategy_epilogue\<close>, the last step of the completion callback
  \<open>zvol_strategy_dmu_done\<close>, and the error callback \<open>zvol_strategy_dmu_err\<close>.
\<close>

definition zvol_strategy_done :: "zvol_dmu_state \<Rightarrow> error \<Rightarrow> zvol_state \<Rightarrow> zvol_state \<times> io_ev list" where
  "zvol_strategy_done zds err zv = (zvol_rele zv, [ZVOL_DONE (zds_id zds) err])"


definition zvol_strategy_dmu_err :: dmu_ctx_cb where
  "zvol_strategy_dmu_err zds zv = zvol_strategy_done zds (Some ENXIO) zv"

text \<open>\<open>boot_ncpus\<close> is a variable of the kernel and a parameter here.\<close>

definition zvol_dmu_max_active :: "int \<Rightarrow> zvol_state \<Rightarrow> bool" where
  "zvol_dmu_max_active boot_ncpus zv = (zv_active zv \<ge> boot_ncpus)"


text \<open>
  \<open>zvol_dmu_ctx_init_deferred\<close>, run when a context gives up its slot.  The state lock
  is taken and released inside.
\<close>

definition zvol_dmu_ctx_init_deferred :: "zvol_state \<Rightarrow> zvol_state \<times> io_ev list" where
  "zvol_dmu_ctx_init_deferred zv =
     (case zv_deferred zv of
        zds # rest \<Rightarrow> (zv\<lparr>zv_deferred := rest\<rparr>, [DISPATCH (zds\<lparr>zds_retry := True\<rparr>)])
      | [] \<Rightarrow> (zv\<lparr>zv_active := zv_active zv - 1\<rparr>, []))"

text \<open>\<open>zvol_dmu_err\<close>: the error callback runs first, then the slot is given up.\<close>

definition zvol_dmu_err :: "zvol_dmu_state \<Rightarrow> dmu_ctx_cb \<Rightarrow> zvol_state \<Rightarrow> zvol_state \<times> io_ev list" where
  "zvol_dmu_err zds err_cb zv =
     (let (zv1, evs1) = err_cb zds zv;
          (zv2, evs2) = zvol_dmu_ctx_init_deferred zv1
      in (zv2, evs1 @ evs2))"


text \<open>
  \<open>zvol_dmu_ctx_init\<close>: the returned error, the context, the volume, and what was
  handed on.  \<open>os\<close> is the object set behind \<open>zv->zv_objset\<close>, and \<open>err_cb\<close> the
  error callback of the context (its field \<open>zds_dmu_err\<close>).  For a write,
  \<open>zv->zv_objset->os_sync\<close> is read, through a \<open>NULL\<close> pointer when the volume has no
  object set; for a read the \<open>&&\<close> stops before it.
\<close>

definition zvol_dmu_ctx_init ::
  "int \<Rightarrow> ctx_env \<Rightarrow> objset \<Rightarrow> dmu_ctx_cb \<Rightarrow> zvol_dmu_state \<Rightarrow> zvol_state
     \<Rightarrow> (error \<times> zvol_dmu_state \<times> zvol_state \<times> io_ev list) cres" where
  "zvol_dmu_ctx_init boot_ncpus env os err_cb zds zv =
     (let reader = zds_reader zds;
          off = zds_off zds;
          io_size = zds_io_size zds;
          zv1 = (if \<not> zds_retry zds then zv\<lparr>zv_suspend_ref := zv_suspend_ref zv + 1\<rparr>
                 else zv)
      in if \<not> reader \<and> \<not> zv_objset zv1 then Fault
         else Ret
          (let zds1 = zds\<lparr>zds_sync := zds_sync zds \<or> (\<not> reader \<and> os_sync_always os)\<rparr>;
               err0 = (if reader then None else if zv_rdonly zv1 then Some EIO else None);
               err1 = (if io_size > 0 \<and> off \<ge> zv_volsize zv1 then Some EIO else err0)
           in if err1 \<noteq> None
              then
                (if zds_retry zds1
                 then (let zds2 = zds1\<lparr>zds_dc_err := err1\<rparr>;
                           (zv2, evs) = zvol_dmu_err zds2 err_cb zv1
                       in (err1, zds2, zv2, evs))
                 else (err1, zds1, zv1, []))
              else
                (let (err2, zds2, zv2) =
                       (if \<not> zds_retry zds1
                        then
                          (if zvol_dmu_max_active boot_ncpus zv1
                           then (let zdsq = zds1\<lparr>zds_async := True\<rparr>
                                 in (Some EINPROGRESS, zdsq,
                                     zv1\<lparr>zv_deferred := zv_deferred zv1 @ [zdsq]\<rparr>))
                           else (None, zds1, zv1\<lparr>zv_active := zv_active zv1 + 1\<rparr>))
                        else (None, zds1, zv1))
                 in if err2 = Some EINPROGRESS then (err2, zds2, zv2, [])
                    else
                      (let io_size1 = min io_size (zv_volsize zv2 - off);
                           zds3 = zds2\<lparr>zds_io_size := io_size1\<rparr>;
                           ev = DMU_CTX_INIT (zds_id zds3) off io_size1
                       in case ce_dmu_ctx_init env of
                            Some e \<Rightarrow>
                              (let zds4 = zds3\<lparr>zds_dc_err := Some e\<rparr>;
                                   (zv3, evs) = zvol_dmu_err zds4 err_cb zv2
                               in (Some e, zds4, zv3, ev # evs))
                          | None \<Rightarrow>
                              (if reader
                               then (ce_rangelock env, zds3, zv2,
                                     [ev, RANGELOCK_TRYENTER_ASYNC (zds_id zds3) off io_size1
                                            RW_READER])
                               else (Some EINPROGRESS, zds3, zv2,
                                     [ev, CTX_INIT_WRITE (zds_id zds3)]))))))"




section \<open>Runs of the pipeline on one volume\<close>


text \<open>
  The contexts that a list of hand-overs starts, those it dispatches, and those it
  issues.
\<close>

fun starts :: "io_ev list \<Rightarrow> nat list" where
  "starts [] = []"
| "starts (RANGELOCK_TRYENTER_ASYNC i off len m # evs) = i # starts evs"
| "starts (CTX_INIT_WRITE i # evs) = i # starts evs"
| "starts (ev # evs) = starts evs"

fun dispatches :: "io_ev list \<Rightarrow> zvol_dmu_state list" where
  "dispatches [] = []"
| "dispatches (DISPATCH zds # evs) = zds # dispatches evs"
| "dispatches (ev # evs) = dispatches evs"

fun issues :: "io_ev list \<Rightarrow> nat list" where
  "issues [] = []"
| "issues (DMU_ISSUE i # evs) = i # issues evs"
| "issues (ev # evs) = issues evs"








section \<open>Removal of minors\<close>

text \<open>
  The test of \<open>zvol_remove_minors_impl\<close> for "this volume is meant": \<open>name\<close> is
  \<open>NULL\<close>, or equals the name of the volume, or is a prefix of it followed by
  \<open>/\<close> or \<open>@\<close>.
\<close>

definition zvol_minor_selected :: "string option \<Rightarrow> zvol_state \<Rightarrow> bool" where
  "zvol_minor_selected name zv =
     (case name of
        None \<Rightarrow> True
      | Some nm \<Rightarrow>
          zv_name zv = nm \<or>
          (strncmp_eq (length nm) (zv_name zv) nm \<and> length nm < length (zv_name zv)
             \<and> (zv_name zv ! length nm = CHR ''/'' \<or> zv_name zv ! length nm = CHR ''@'')))"

text \<open>
  The loop of \<open>zvol_remove_minors_impl\<close> over \<open>zvol_state_list\<close>: the volumes that
  stay on the list, and those taken off it and freed.
\<close>

fun zvol_remove_minors_loop ::
  "string option \<Rightarrow> zvol_state list \<Rightarrow> zvol_state list \<times> zvol_state list" where
  "zvol_remove_minors_loop name [] = ([], [])"
| "zvol_remove_minors_loop name (zv # rest) =
     (let (kept, freed) = zvol_remove_minors_loop name rest
      in if zvol_minor_selected name zv
         then (if zv_open_count zv > 0 \<or> zv_suspend_ref zv \<noteq> 0
               then (zv # kept, freed)
               else (kept, zv # freed))
         else (zv # kept, freed))"

definition zvol_remove_minors_impl ::
  "bool \<Rightarrow> string option \<Rightarrow> zvol_state list \<Rightarrow> zvol_state list \<times> zvol_state list" where
  "zvol_remove_minors_impl zvol_inhibit_dev name state_list =
     (if zvol_inhibit_dev then (state_list, [])
      else zvol_remove_minors_loop name state_list)"

section \<open>What a run preserves\<close>




section \<open>Freeing a range: BIO\_DELETE and DIOCGDELETE\<close>

datatype bio_cmd_t = BIO_READ | BIO_WRITE | BIO_DELETE | BIO_FLUSH | BIO_OTHER

text \<open>
  The fields of \<open>struct bio\<close> that \<open>zvol_geom_bio_sync\<close> uses; \<open>bio_offset\<close>,
  \<open>bio_length\<close> and \<open>bio_completed\<close> are of the signed type \<open>off_t\<close>.
\<close>

record bio =
  bio_cmd :: bio_cmd_t
  bio_offset :: u64
  bio_length :: u64
  bio_completed :: u64

text \<open>
  What the functions of this section and the next ask of the range lock, the transaction
  engine and the ZIL; \<open>LOG_WRITE\<close> is a call of \<open>zvol_log_write\<close>.
\<close>

datatype dmu_op = RANGELOCK_ENTER u64 u64 krw_t | RANGELOCK_EXIT | TX_ABORT
  | LOG_TRUNCATE u64 u64 bool | TX_COMMIT | FREE_LONG_RANGE u64 u64
  | ZIL_COMMIT_ASYNC | ZIL_COMMIT
  | TX_HOLD_WRITE u64 u64 | WRITE_UIO u64 u64 | LOG_WRITE u64 u64 bool

text \<open>
  The results of the calls whose outcome the two functions look at:
  \<open>dmu_tx_assign\<close> and \<open>dmu_free_long_range\<close>, and what \<open>zvol_ensure_zilog\<close>
  meets.
\<close>

record free_env =
  fe_zilog :: zilog_env
  fe_tx_assign :: error
  fe_free_long_range :: error

text \<open>
  \<open>zvol_log_truncate\<close> (zvol.c): one \<open>TX_TRUNCATE\<close> record unless the ZIL is
  replaying.  A \<open>NULL\<close> \<open>zv_zilog\<close> is dereferenced, hence \<open>Fault\<close>.
\<close>

definition zvol_log_truncate :: "zvol_state \<Rightarrow> u64 \<Rightarrow> u64 \<Rightarrow> bool \<Rightarrow> dmu_op list cres" where
  "zvol_log_truncate zv off len sync =
     (case zv_zilog zv of
        None \<Rightarrow> Fault
      | Some zilog \<Rightarrow> Ret (if zl_replaying zilog then [] else [LOG_TRUNCATE off len sync]))"

text \<open>
  \<open>zvol_geom_bio_sync\<close> (zvol\_os.c).  The result is the error that reaches
  \<open>zvol_done\<close> (at once, or through \<open>zvol_commit_done\<close> when \<open>zil_commit_async\<close>
  answers \<open>EINPROGRESS\<close>), the bio, the volume, and the operations asked for, in order.
\<close>

definition zvol_geom_bio_sync ::
  "free_env \<Rightarrow> objset \<Rightarrow> zvol_state \<Rightarrow> bio \<Rightarrow> (error \<times> bio \<times> zvol_state \<times> dmu_op list) cres" where
  "zvol_geom_bio_sync env os zv bp =
     (let zv1 = rw_enter RW_READER zv
      in case bio_cmd bp of
           BIO_FLUSH \<Rightarrow>
             (let (zv2, locks, opens) = zvol_ensure_zilog (fe_zilog env) zv1
              in Ret (None, bp, rw_exit zv2, [ZIL_COMMIT_ASYNC]))
         | BIO_DELETE \<Rightarrow>
             (let (zv2, locks, opens) = zvol_ensure_zilog (fe_zilog env) zv1;
                  sync = os_sync_always os;
                  off = bio_offset bp;
                  resid = bio_length bp;
                  volsize = zv_volsize zv2
              in case (case fe_tx_assign env of
                         Some e \<Rightarrow> Ret (Some e, resid, [TX_ABORT])
                       | None \<Rightarrow>
                           (case zvol_log_truncate zv2 off resid sync of
                              Fault \<Rightarrow> Fault
                            | Ret logged \<Rightarrow>
                                Ret (fe_free_long_range env, 0,
                                     logged @ [TX_COMMIT, FREE_LONG_RANGE off resid]))) of
                   Fault \<Rightarrow> Fault
                 | Ret (error, resid1, ops) \<Rightarrow>
                     (let bp1 = bp\<lparr>bio_completed := bio_length bp - resid1\<rparr>;
                          error1 = (if bio_completed bp1 <s bio_length bp1 \<and> off > volsize
                                    then Some EINVAL else error)
                      in Ret (error1, bp1, rw_exit zv2,
                              RANGELOCK_ENTER off resid RW_WRITER # ops @ [RANGELOCK_EXIT]
                                @ (if sync then [ZIL_COMMIT_ASYNC] else []))))
         | _ \<Rightarrow> Ret (Some EOPNOTSUPP, bp, rw_exit zv1, []))"

text \<open>\<open>DEV_BSIZE\<close> of FreeBSD's \<open>sys/param.h\<close>.\<close>

definition DEV_BSIZE :: int where
  "DEV_BSIZE = 512"

text \<open>
  The case \<open>DIOCGDELETE\<close> of \<open>zvol_cdev_ioctl\<close> (zvol\_os.c); \<open>offset\<close> and
  \<open>length\<close> are of type \<open>off_t\<close>, and \<open>%\<close> is the remainder of C's division.
\<close>

definition zvol_cdev_ioctl_delete ::
  "bool \<Rightarrow> free_env \<Rightarrow> objset \<Rightarrow> zvol_state \<Rightarrow> u64 \<Rightarrow> u64
     \<Rightarrow> (error \<times> zvol_state \<times> dmu_op list) cres" where
  "zvol_cdev_ioctl_delete zvol_unmap_enabled env os zv offset len =
     (if \<not> zvol_unmap_enabled then Ret (None, zv, [])
      else if sint offset smod DEV_BSIZE \<noteq> 0 \<or> sint len smod DEV_BSIZE \<noteq> 0
              \<or> sint offset < 0 \<or> offset \<ge> zv_volsize zv \<or> sint len \<le> 0
      then Ret (Some EINVAL, zv, [])
      else
        (let zv1 = rw_enter RW_READER zv;
             (zv2, locks, opens) = zvol_ensure_zilog (fe_zilog env) zv1
         in case fe_tx_assign env of
              Some e \<Rightarrow>
                Ret (Some e, rw_exit zv2,
                     [RANGELOCK_ENTER offset len RW_WRITER, TX_ABORT, RANGELOCK_EXIT])
            | None \<Rightarrow>
                (let sync = os_sync_always os
                 in case zvol_log_truncate zv2 offset len sync of
                      Fault \<Rightarrow> Fault
                    | Ret logged \<Rightarrow>
                        Ret (fe_free_long_range env, rw_exit zv2,
                             RANGELOCK_ENTER offset len RW_WRITER # logged
                               @ [TX_COMMIT, FREE_LONG_RANGE offset len, RANGELOCK_EXIT]
                               @ (if sync then [ZIL_COMMIT] else [])))))"

section \<open>Writing through the character device\<close>

text \<open>
  The fields of \<open>struct uio\<close> that \<open>zvol_cdev_write\<close> uses: \<open>uio_loffset\<close> is of the
  signed type \<open>off_t\<close>, \<open>uio_resid\<close> of the signed type \<open>ssize_t\<close>.
\<close>

record uio =
  uio_loffset :: u64
  uio_resid :: u64

text \<open>
  What \<open>zvol_cdev_write\<close> meets: the circumstances of \<open>zvol_ensure_zilog\<close>, and the
  results of \<open>dmu_tx_assign\<close> and of \<open>dmu_write_uio_dnode\<close> for the chunk that starts
  at a given offset.  A \<open>dmu_write_uio_dnode\<close> that returns 0 has copied the bytes it
  was asked for and moved the \<open>uio\<close> by as many.
\<close>

record write_env =
  we_zilog :: zilog_env
  we_tx_assign :: "u64 \<Rightarrow> error"
  we_write_uio :: "u64 \<Rightarrow> error"

text \<open>
  The \<open>while\<close> loop of \<open>zvol_cdev_write\<close>: the error it leaves and the operations asked
  for, appended to \<open>ops\<close>.  \<open>DMU_MAX_ACCESS\<close> is defined outside the two source files
  and is a parameter; \<open>MIN\<close> compares it, halved, with \<open>uio_resid\<close> as signed values,
  and \<open>uio_loffset\<close> is compared with \<open>volsize\<close> as an unsigned value.  A loop that
  never ends has no result (\<open>None\<close>).
\<close>

partial_function (option) zvol_cdev_write_loop ::
  "u64 \<Rightarrow> write_env \<Rightarrow> u64 \<Rightarrow> bool \<Rightarrow> uio \<Rightarrow> dmu_op list \<Rightarrow> (error \<times> dmu_op list) option" where
  "zvol_cdev_write_loop dmu_max_access env volsize sync uio ops =
     (if 0 <s uio_resid uio \<and> uio_loffset uio < volsize
      then
        (let bytes0 = (if uio_resid uio <s drop_bit 1 dmu_max_access then uio_resid uio
                       else drop_bit 1 dmu_max_access);
             off = uio_loffset uio;
             bytes = (if bytes0 > volsize - off then volsize - off else bytes0)
         in case we_tx_assign env off of
              Some e \<Rightarrow> Some (Some e, ops @ [TX_HOLD_WRITE off bytes, TX_ABORT])
            | None \<Rightarrow>
                (case we_write_uio env off of
                   Some e \<Rightarrow>
                     Some (Some e, ops @ [TX_HOLD_WRITE off bytes, WRITE_UIO off bytes, TX_COMMIT])
                 | None \<Rightarrow>
                     zvol_cdev_write_loop dmu_max_access env volsize sync
                       (uio\<lparr>uio_loffset := off + bytes, uio_resid := uio_resid uio - bytes\<rparr>)
                       (ops @ [TX_HOLD_WRITE off bytes, WRITE_UIO off bytes,
                               LOG_WRITE off bytes sync, TX_COMMIT])))
      else Some (None, ops))"

text \<open>
  \<open>zvol_cdev_write\<close> (zvol\_os.c).  \<open>io_sync\<close> is \<open>ioflag & IO_SYNC\<close>; when it is not
  set, \<open>zv->zv_objset->os_sync\<close> is read.  The result is the returned error, the volume
  and the operations asked for, in order.
\<close>

definition zvol_cdev_write ::
  "u64 \<Rightarrow> write_env \<Rightarrow> objset \<Rightarrow> bool \<Rightarrow> uio \<Rightarrow> zvol_state
     \<Rightarrow> (error \<times> zvol_state \<times> dmu_op list) option cres" where
  "zvol_cdev_write dmu_max_access env os io_sync uio zv =
     (let volsize = zv_volsize zv
      in if 0 <s uio_resid uio \<and> (uio_loffset uio <s 0 \<or> uio_loffset uio > volsize)
         then Ret (Some (Some EIO, zv, []))
         else if \<not> io_sync \<and> \<not> zv_objset zv then Fault
         else
           (let sync = (io_sync \<or> os_sync_always os);
                zv1 = rw_enter RW_READER zv;
                (zv2, locks, opens) = zvol_ensure_zilog (we_zilog env) zv1
            in case zvol_cdev_write_loop dmu_max_access env volsize sync uio
                      [RANGELOCK_ENTER (uio_loffset uio) (uio_resid uio) RW_WRITER] of
                 None \<Rightarrow> Ret None
               | Some (error, ops) \<Rightarrow>
                   Ret (Some (error, rw_exit zv2,
                              ops @ [RANGELOCK_EXIT] @ (if sync then [ZIL_COMMIT] else [])))))"

text \<open>
  An operation of \<open>zvol_cdev_write\<close> that names a range to be written names one that
  starts inside the volume and does not pass its end.
\<close>

fun write_inside :: "u64 \<Rightarrow> dmu_op \<Rightarrow> bool" where
  "write_inside volsize (TX_HOLD_WRITE off bytes) =
     (off < volsize \<and> unat off + unat bytes \<le> unat volsize)"
| "write_inside volsize (WRITE_UIO off bytes) =
     (off < volsize \<and> unat off + unat bytes \<le> unat volsize)"
| "write_inside volsize other = True"

section \<open>A freshly created volume\<close>

text \<open>
  The volume as \<open>zvol_create_minor_impl\<close> (zvol\_os.c) hands it to \<open>zvol_insert\<close>:
  allocated with \<open>kmem_zalloc\<close>, so every field it does not set is zero; \<open>ro\<close> says
  whether the object set is a snapshot or its pool is not writeable.
\<close>

definition zvol_alloc :: "string \<Rightarrow> u64 \<Rightarrow> u64 \<Rightarrow> u64 \<Rightarrow> bool \<Rightarrow> zvol_state" where
  "zvol_alloc name hash volsize blocksize ro =
     \<lparr>zv_name = name, zv_hash = hash, zv_volsize = volsize, zv_volblocksize = blocksize,
      zv_open_count = 0, zv_suspend_ref = 0, zv_active = 0, zv_deferred = [],
      zv_rdonly = ro, zv_written_to = False, zv_objset = False, zv_dn = False,
      zv_zilog = None, zv_changed = False, zv_state_lock = False,
      zv_suspend_lock = RW_NONE\<rparr>"

section \<open>Properties of the size validation\<close>

lemma word_mod_zero_iff_dvd:
  fixes a b :: u64
  shows "a mod b = 0 \<longleftrightarrow> unat b dvd unat a"
  by (simp add: unat_eq_zero [symmetric] unat_mod dvd_eq_mod_eq_0)

lemma zvol_check_volsize_lp64:
  "blocksize \<noteq> 0 \<Longrightarrow>
   zvol_check_volsize False m volsize blocksize =
     Ret (if volsize \<noteq> 0 \<and> unat blocksize dvd unat volsize then None else Some EINVAL)"
  by (simp add: zvol_check_volsize_def word_mod_zero_iff_dvd)

lemma zvol_check_volsize_ok:
  "zvol_check_volsize ilp m volsize blocksize = Ret None \<Longrightarrow>
     volsize \<noteq> 0 \<and> blocksize \<noteq> 0 \<and> unat blocksize dvd unat volsize"
  by (auto simp: zvol_check_volsize_def word_mod_zero_iff_dvd split: if_splits)

lemma zvol_update_volsize_cases:
  "zvol_update_volsize env volsize os = (err, os') \<Longrightarrow>
     os' = os \<or> os' = os\<lparr>os_zap_size := volsize\<rparr>"
  by (auto simp: zvol_update_volsize_def split: option.splits)

lemma zvol_set_volsize_records:
  assumes "zvol_set_volsize ilp m mx nh try_ok env chain name volsize os
             = Ret (err, chain', os', upd)"
  shows "os' = os \<or>
     (os' = os\<lparr>os_zap_size := volsize\<rparr> \<and> volsize \<noteq> 0 \<and> os_data_block_size os \<noteq> 0
        \<and> unat (os_data_block_size os) dvd unat volsize)"
  using assms
  apply (simp add: zvol_set_volsize_def Let_def
      split: sum.splits bool.splits if_splits option.splits cres.splits prod.splits)
   apply (auto dest!: zvol_check_volsize_ok zvol_update_volsize_cases)
  done

text \<open>
  Claim C10.  In the 64-bit build, and for a block size other than zero (at zero the C
  remainder traps), \<open>zvol_check_volsize\<close> returns 0 exactly when the volume size is
  non-zero and a multiple of the block size, and \<open>EINVAL\<close> in every other case.
  \<open>zvol_set_volsize\<close>, in either build, leaves the persisted size as it was or sets it
  to the requested size, and the latter only when that size is non-zero and a multiple of
  the block size of the object.
\<close>

theorem zvol_volsize_validated:
  "(blocksize \<noteq> 0 \<longrightarrow>
      zvol_check_volsize False m volsize blocksize =
        Ret (if volsize \<noteq> 0 \<and> unat blocksize dvd unat volsize then None else Some EINVAL))
   \<and> (zvol_set_volsize ilp m mx nh try_ok env chain name volsize os
         = Ret (err, chain', os', upd) \<longrightarrow>
        os' = os \<or>
        (os' = os\<lparr>os_zap_size := volsize\<rparr> \<and> volsize \<noteq> 0
           \<and> unat (os_data_block_size os) dvd unat volsize))"
  using zvol_check_volsize_lp64 [of blocksize m volsize]
    zvol_set_volsize_records [of ilp m mx nh try_ok env chain name volsize os err chain' os' upd]
  by blast

theorem zvol_volsize_validated_witness:
  "(4096 :: u64) \<noteq> 0
   \<and> zvol_check_volsize False 0 8192 4096 = Ret None
   \<and> zvol_check_volsize False 0 8000 4096 = Ret (Some EINVAL)
   \<and> zvol_set_volsize False 0 256 (\<lambda>n. 7) (\<lambda>p. True)
        \<lparr>env_prop_readonly = Inr False, env_objset_own = None, env_object_info = None,
          env_tx_assign = None, env_zap_update = None, env_free_long_range = None\<rparr>
        [] ''tank/a'' 8192
        \<lparr>os_zap_size = 4096, os_data_block_size = 4096, os_sync_always = False\<rparr>
      = Ret (None, [],
          \<lparr>os_zap_size = 8192, os_data_block_size = 4096, os_sync_always = False\<rparr>, False)
   \<and> unat (4096 :: u64) dvd unat (8192 :: u64)"
  using zvol_volsize_validated [where blocksize = 4096 and m = 0 and volsize = 8192
      and ilp = False and mx = 256 and nh = "\<lambda>n. 7" and try_ok = "\<lambda>p. True"
      and chain = "[]" and name = "''tank/a''" and err = None and chain' = "[]"
      and upd = False
      and env = "\<lparr>env_prop_readonly = Inr False, env_objset_own = None,
          env_object_info = None, env_tx_assign = None, env_zap_update = None,
          env_free_long_range = None\<rparr>"
      and os = "\<lparr>os_zap_size = 4096, os_data_block_size = 4096, os_sync_always = False\<rparr>"
      and os' = "\<lparr>os_zap_size = 8192, os_data_block_size = 4096, os_sync_always = False\<rparr>"]
    zvol_volsize_validated [where blocksize = 4096 and m = 0 and volsize = 8000]
  by (simp add: zvol_set_volsize_def zvol_check_volsize_def zvol_update_volsize_def Let_def
      zvol_find_by_name_def zvol_find_by_name_hash_def)

section \<open>Properties of the registry lookup\<close>

lemma zvol_matches_locks [simp]:
  "zvol_matches n name hash (mutex_enter zv) = zvol_matches n name hash zv"
  by (simp add: zvol_matches_def mutex_enter_def)

lemma unlocked_mutex_cycle:
  "\<not> zv_state_lock zv \<Longrightarrow> mutex_exit (mutex_enter zv) = zv"
  by (simp add: mutex_exit_def mutex_enter_def)

lemma zvol_find_loop_hit:
  assumes "zvol_matches n name hash zv"
  shows "zvol_find_loop n try_ok name hash mode p (zv # rest) =
     (Some p, zv\<lparr>zv_state_lock := True,
                 zv_suspend_lock := (if mode = RW_NONE then zv_suspend_lock zv else mode)\<rparr> # rest,
      if mode \<noteq> RW_NONE \<and> \<not> try_ok p
      then [ZV p MUTEX_ENTER, ZV p (RW_TRYENTER mode False), ZV p MUTEX_EXIT,
            ZV p (RW_ENTER mode), ZV p MUTEX_ENTER]
      else if mode \<noteq> RW_NONE then [ZV p MUTEX_ENTER, ZV p (RW_TRYENTER mode True)]
      else [ZV p MUTEX_ENTER])"
  using assms by (simp add: Let_def) (simp add: mutex_enter_def mutex_exit_def rw_enter_def)

lemma zvol_find_loop_miss:
  assumes "\<not> zvol_matches n name hash zv" and "\<not> zv_state_lock zv"
    and "zvol_find_loop n try_ok name hash mode (Suc p) rest = (r0, rest0, evs0)"
  shows "zvol_find_loop n try_ok name hash mode p (zv # rest) =
     (r0, zv # rest0, ZV p MUTEX_ENTER # ZV p MUTEX_EXIT # evs0)"
  using assms by (simp add: Let_def unlocked_mutex_cycle)

lemma zvol_find_loop_result:
  assumes "\<forall>zv\<in>set chain. \<not> zv_state_lock zv"
    and "zvol_find_loop n try_ok name hash mode p chain = (r, chain', evs)"
  shows "case r of
           None \<Rightarrow> (\<forall>zv\<in>set chain. \<not> zvol_matches n name hash zv) \<and> chain' = chain
         | Some q \<Rightarrow> p \<le> q \<and> q - p < length chain
             \<and> zvol_matches n name hash (chain ! (q - p))
             \<and> (\<forall>k<q - p. \<not> zvol_matches n name hash (chain ! k))
             \<and> chain' = chain[q - p := (chain ! (q - p))
                  \<lparr>zv_state_lock := True,
                    zv_suspend_lock := (if mode = RW_NONE
                       then zv_suspend_lock (chain ! (q - p)) else mode)\<rparr>]"
  using assms
proof (induction chain arbitrary: p r chain' evs)
  case Nil
  then show ?case by simp
next
  case (Cons zv rest)
  show ?case
  proof (cases "zvol_matches n name hash zv")
    case True
    from Cons.prems(2) show ?thesis
      unfolding zvol_find_loop_hit [OF True] using True by auto
  next
    case False
    obtain r0 rest0 evs0 where rec:
      "zvol_find_loop n try_ok name hash mode (Suc p) rest = (r0, rest0, evs0)"
      by (cases "zvol_find_loop n try_ok name hash mode (Suc p) rest") auto
    from Cons.prems have unl: "\<forall>zv\<in>set rest. \<not> zv_state_lock zv" and unl0: "\<not> zv_state_lock zv"
      by auto
    from Cons.prems(2) have r: "r = r0" and c: "chain' = zv # rest0"
      unfolding zvol_find_loop_miss [OF False unl0 rec] by auto
    note ih = Cons.IH [OF unl rec]
    show ?thesis
    proof (cases r0)
      case None
      with ih r c False show ?thesis by simp
    next
      case (Some q)
      with ih have q: "Suc p \<le> q" "q - Suc p < length rest" by auto
      then have qp: "q - p = Suc (q - Suc p)" by arith
      from Some ih r c False q show ?thesis
        by (auto simp: qp less_Suc_eq_0_disj)
    qed
  qed
qed

lemma suspend_before_state_list_exit:
  "suspend_before_state held (evs @ [LIST_EXIT]) = suspend_before_state held evs"
  by (induction held evs rule: suspend_before_state.induct) auto

lemma zvol_find_loop_order:
  "suspend_before_state held (snd (snd (zvol_find_loop n try_ok name hash mode p chain)))"
proof (induction chain arbitrary: p held)
  case Nil
  then show ?case by simp
next
  case (Cons zv rest)
  show ?case
  proof (cases "zvol_matches n name hash zv")
    case True
    then show ?thesis by (simp add: Let_def)
  next
    case False
    then show ?thesis
      using Cons.IH [of "removeAll p (p # held)" "Suc p"]
      by (auto simp: Let_def split: prod.splits)
  qed
qed

lemma zvol_find_loop_slow_path:
  assumes "zvol_find_loop n try_ok name hash mode p chain = (Some q, chain', evs)"
    and "mode \<noteq> RW_NONE"
  shows "if try_ok q
         then \<exists>pre. evs = pre @ [ZV q MUTEX_ENTER, ZV q (RW_TRYENTER mode True)]
         else \<exists>pre. evs = pre @ [ZV q MUTEX_ENTER, ZV q (RW_TRYENTER mode False),
                 ZV q MUTEX_EXIT, ZV q (RW_ENTER mode), ZV q MUTEX_ENTER]"
  using assms
proof (induction chain arbitrary: p chain' evs)
  case Nil
  then show ?case by simp
next
  case (Cons zv rest)
  show ?case
  proof (cases "zvol_matches n name hash zv")
    case True
    with Cons.prems show ?thesis by (auto simp: Let_def split: if_splits)
  next
    case False
    obtain r0 rest0 evs0 where rec:
      "zvol_find_loop n try_ok name hash mode (Suc p) rest = (r0, rest0, evs0)"
      by (cases "zvol_find_loop n try_ok name hash mode (Suc p) rest") auto
    with Cons.prems(1) False have r0: "r0 = Some q"
      and evs: "evs = ZV p MUTEX_ENTER # ZV p MUTEX_EXIT # evs0"
      by (auto simp: Let_def)
    from Cons.IH [OF rec [unfolded r0] Cons.prems(2)] evs show ?thesis
      by (auto split: if_splits intro: exI [of _ "ZV p MUTEX_ENTER # ZV p MUTEX_EXIT # pre" for pre])
  qed
qed

lemma zvol_find_by_name_hash_spec:
  assumes "\<forall>zv\<in>set chain. \<not> zv_state_lock zv \<and> zv_suspend_lock zv = RW_NONE"
    and "zvol_find_by_name_hash n try_ok chain name hash mode = (r, chain', evs)"
  shows "(case r of
            None \<Rightarrow> (\<forall>zv\<in>set chain. \<not> zvol_matches n name hash zv) \<and> chain' = chain
          | Some q \<Rightarrow> q < length chain
              \<and> zvol_matches n name hash (chain ! q)
              \<and> (\<forall>k<q. \<not> zvol_matches n name hash (chain ! k))
              \<and> chain' = chain[q := (chain ! q)\<lparr>zv_state_lock := True, zv_suspend_lock := mode\<rparr>]
              \<and> (mode \<noteq> RW_NONE \<and> \<not> try_ok q \<longrightarrow>
                   (\<exists>pre. evs = pre @ [ZV q MUTEX_ENTER, ZV q (RW_TRYENTER mode False),
                       ZV q MUTEX_EXIT, ZV q (RW_ENTER mode), ZV q MUTEX_ENTER, LIST_EXIT])))
         \<and> suspend_before_state [] evs"
proof -
  obtain evs0 where loop: "zvol_find_loop n try_ok name hash mode 0 chain = (r, chain', evs0)"
    and evs: "evs = LIST_ENTER RW_READER # evs0 @ [LIST_EXIT]"
    using assms(2) by (auto simp: zvol_find_by_name_hash_def split: prod.splits)
  from assms(1) have unl: "\<forall>zv\<in>set chain. \<not> zv_state_lock zv" by simp
  note res = zvol_find_loop_result [OF unl loop]
  have ord: "suspend_before_state [] evs"
    using zvol_find_loop_order [of "[]" n try_ok name hash mode 0 chain] loop
    by (simp add: evs suspend_before_state_list_exit)
  show ?thesis
  proof (cases r)
    case None
    with res ord show ?thesis by simp
  next
    case (Some q)
    with res have q: "q < length chain" by simp
    with assms(1) have none: "zv_suspend_lock (chain ! q) = RW_NONE" by simp
    have slow: "mode \<noteq> RW_NONE \<and> \<not> try_ok q \<longrightarrow>
        (\<exists>pre. evs = pre @ [ZV q MUTEX_ENTER, ZV q (RW_TRYENTER mode False),
            ZV q MUTEX_EXIT, ZV q (RW_ENTER mode), ZV q MUTEX_ENTER, LIST_EXIT])"
    proof (intro impI)
      assume a: "mode \<noteq> RW_NONE \<and> \<not> try_ok q"
      with zvol_find_loop_slow_path [OF loop [unfolded Some]]
      obtain pre where "evs0 = pre @ [ZV q MUTEX_ENTER, ZV q (RW_TRYENTER mode False),
                 ZV q MUTEX_EXIT, ZV q (RW_ENTER mode), ZV q MUTEX_ENTER]" by auto
      then have "evs = (LIST_ENTER RW_READER # pre) @ [ZV q MUTEX_ENTER, ZV q (RW_TRYENTER mode False),
            ZV q MUTEX_EXIT, ZV q (RW_ENTER mode), ZV q MUTEX_ENTER, LIST_EXIT]"
        by (simp add: evs)
      then show "\<exists>pre. evs = pre @ [ZV q MUTEX_ENTER, ZV q (RW_TRYENTER mode False),
            ZV q MUTEX_EXIT, ZV q (RW_ENTER mode), ZV q MUTEX_ENTER, LIST_EXIT]" by blast
    qed
    from res Some none have "chain' = chain[q := (chain ! q)\<lparr>zv_state_lock := True, zv_suspend_lock := mode\<rparr>]"
      by (cases "mode = RW_NONE") auto
    with res Some ord slow show ?thesis by simp
  qed
qed

text \<open>
  Claim C4.  Called by a flow that holds no lock of the volumes of the chain,
  \<open>zvol_find_by_name_hash\<close> returns the first volume of the chain whose hash and name
  match, with its state lock owned and its suspend lock held in the requested mode
  (untouched for \<open>RW_NONE\<close>), every other volume as before; when no volume matches it
  returns \<open>NULL\<close> and the flow holds what it held before, that is, nothing.  The flow
  never blocks on a suspend lock while it owns the state lock of that volume: when the
  try-acquire fails it drops the state lock, blocks on the suspend lock, and takes the
  state lock again.
\<close>

theorem zvol_find_by_name_hash_locks:
  assumes "\<forall>zv\<in>set chain. \<not> zv_state_lock zv \<and> zv_suspend_lock zv = RW_NONE"
    and "zvol_find_by_name_hash n try_ok chain name hash mode = (r, chain', evs)"
  shows "(case r of
            None \<Rightarrow> (\<forall>zv\<in>set chain. \<not> zvol_matches n name hash zv) \<and> chain' = chain
          | Some q \<Rightarrow> q < length chain
              \<and> zvol_matches n name hash (chain ! q)
              \<and> (\<forall>k<q. \<not> zvol_matches n name hash (chain ! k))
              \<and> chain' = chain[q := (chain ! q)\<lparr>zv_state_lock := True, zv_suspend_lock := mode\<rparr>]
              \<and> (mode \<noteq> RW_NONE \<and> \<not> try_ok q \<longrightarrow>
                   (\<exists>pre. evs = pre @ [ZV q MUTEX_ENTER, ZV q (RW_TRYENTER mode False),
                       ZV q MUTEX_EXIT, ZV q (RW_ENTER mode), ZV q MUTEX_ENTER, LIST_EXIT])))
         \<and> suspend_before_state [] evs"
  using assms by (rule zvol_find_by_name_hash_spec)

theorem zvol_find_by_name_hash_locks_witness:
  "zvol_find_by_name_hash 256 (\<lambda>p. False)
     [zvol_alloc ''tank/a'' 7 8192 4096 False, zvol_alloc ''tank/b'' 7 8192 4096 False]
     ''tank/b'' 7 RW_WRITER =
   (Some 1,
    [zvol_alloc ''tank/a'' 7 8192 4096 False,
     (zvol_alloc ''tank/b'' 7 8192 4096 False)
       \<lparr>zv_state_lock := True, zv_suspend_lock := RW_WRITER\<rparr>],
    [LIST_ENTER RW_READER, ZV 0 MUTEX_ENTER, ZV 0 MUTEX_EXIT, ZV 1 MUTEX_ENTER,
     ZV 1 (RW_TRYENTER RW_WRITER False), ZV 1 MUTEX_EXIT, ZV 1 (RW_ENTER RW_WRITER),
     ZV 1 MUTEX_ENTER, LIST_EXIT])
   \<and> suspend_before_state []
       [LIST_ENTER RW_READER, ZV 0 MUTEX_ENTER, ZV 0 MUTEX_EXIT, ZV 1 MUTEX_ENTER,
        ZV 1 (RW_TRYENTER RW_WRITER False), ZV 1 MUTEX_EXIT, ZV 1 (RW_ENTER RW_WRITER),
        ZV 1 MUTEX_ENTER, LIST_EXIT]"
proof -
  let ?chain = "[zvol_alloc ''tank/a'' 7 8192 4096 False,
                 zvol_alloc ''tank/b'' 7 8192 4096 False]"
  have free: "\<forall>zv\<in>set ?chain. \<not> zv_state_lock zv \<and> zv_suspend_lock zv = RW_NONE"
    by (simp add: zvol_alloc_def)
  have run: "zvol_find_by_name_hash 256 (\<lambda>p. False) ?chain ''tank/b'' 7 RW_WRITER =
     (Some 1,
      [zvol_alloc ''tank/a'' 7 8192 4096 False,
       (zvol_alloc ''tank/b'' 7 8192 4096 False)
         \<lparr>zv_state_lock := True, zv_suspend_lock := RW_WRITER\<rparr>],
      [LIST_ENTER RW_READER, ZV 0 MUTEX_ENTER, ZV 0 MUTEX_EXIT, ZV 1 MUTEX_ENTER,
       ZV 1 (RW_TRYENTER RW_WRITER False), ZV 1 MUTEX_EXIT, ZV 1 (RW_ENTER RW_WRITER),
       ZV 1 MUTEX_ENTER, LIST_EXIT])"
    by (simp add: zvol_find_by_name_hash_def zvol_matches_def strncmp_eq_def Let_def
        zvol_alloc_def mutex_enter_def mutex_exit_def rw_enter_def)
  from zvol_find_by_name_hash_locks [OF free run] run show ?thesis
    by simp
qed

section \<open>Properties of suspend and resume\<close>








section \<open>Properties of the lazy ZIL handle\<close>

text \<open>
  Claim C8.  Entered with the suspend lock held as reader, \<open>zvol_ensure_zilog\<close> returns
  with a ZIL handle present and the suspend lock held as reader.  If the handle was
  there, nothing happens.  If it was absent, the flow tries the upgrade, and when that
  is refused drops the lock and takes it as writer; it then looks at the handle again:
  only if it is still absent does it call \<open>zil_open\<close>, once, otherwise it keeps the
  handle another flow has stored in the meantime; last it downgrades.  A second call on
  the result changes nothing, makes no lock call and opens no handle.
\<close>

theorem zvol_ensure_zilog_once:
  assumes "zv_suspend_lock zv = RW_READER" and "zvol_ensure_zilog env zv = (zv', evs, opens)"
  shows "zv_zilog zv' \<noteq> None \<and> zv_suspend_lock zv' = RW_READER
     \<and> (zv_zilog zv \<noteq> None \<longrightarrow> zv' = zv \<and> evs = [] \<and> opens = 0)
     \<and> (zv_zilog zv = None \<longrightarrow>
           evs = (if ze_tryupgrade env then [RW_TRYUPGRADE True]
                  else [RW_TRYUPGRADE False, RW_EXIT, RW_ENTER RW_WRITER]) @ [RW_DOWNGRADE]
           \<and> (let seen = (if ze_tryupgrade env then None
                            else zv_zilog (ze_interfere env (rw_exit zv)))
              in (seen = None \<longrightarrow> opens = 1 \<and> zv_zilog zv' = Some (ze_zil_open env)
                     \<and> zv_written_to zv')
               \<and> (seen \<noteq> None \<longrightarrow> opens = 0 \<and> zv_zilog zv' = seen)))
     \<and> opens \<le> 1
     \<and> zvol_ensure_zilog env2 zv' = (zv', [], 0)"
  using assms
  by (auto simp: zvol_ensure_zilog_def Let_def rw_enter_def rw_exit_def rw_downgrade_def
      split: if_splits prod.splits)

theorem zvol_ensure_zilog_once_witness:
  "zv_suspend_lock ((zvol_alloc ''tank/a'' 7 8192 4096 False)
       \<lparr>zv_open_count := 1, zv_objset := True, zv_dn := True,
         zv_suspend_lock := RW_READER\<rparr>) = RW_READER
   \<and> zvol_ensure_zilog
       \<lparr>ze_tryupgrade = False, ze_interfere = (\<lambda>zv. zv),
         ze_zil_open = \<lparr>zl_id = 1, zl_logbias_throughput = False, zl_has_slogs = False,
           zl_max_copied_data = 7000, zl_replaying = False\<rparr>\<rparr>
       ((zvol_alloc ''tank/a'' 7 8192 4096 False)
         \<lparr>zv_open_count := 1, zv_objset := True, zv_dn := True,
           zv_suspend_lock := RW_READER\<rparr>)
     = ((zvol_alloc ''tank/a'' 7 8192 4096 False)
         \<lparr>zv_open_count := 1, zv_written_to := True, zv_objset := True, zv_dn := True,
           zv_zilog := Some \<lparr>zl_id = 1, zl_logbias_throughput = False,
             zl_has_slogs = False, zl_max_copied_data = 7000, zl_replaying = False\<rparr>,
           zv_suspend_lock := RW_READER\<rparr>,
        [RW_TRYUPGRADE False, RW_EXIT, RW_ENTER RW_WRITER, RW_DOWNGRADE], 1)"
proof -
  let ?zv = "(zvol_alloc ''tank/a'' 7 8192 4096 False)
       \<lparr>zv_open_count := 1, zv_objset := True, zv_dn := True,
         zv_suspend_lock := RW_READER\<rparr>"
  have held: "zv_suspend_lock ?zv = RW_READER"
    by (simp add: zvol_alloc_def)
  have run: "zvol_ensure_zilog
       \<lparr>ze_tryupgrade = False, ze_interfere = (\<lambda>zv. zv),
         ze_zil_open = \<lparr>zl_id = 1, zl_logbias_throughput = False, zl_has_slogs = False,
           zl_max_copied_data = 7000, zl_replaying = False\<rparr>\<rparr> ?zv
     = ((zvol_alloc ''tank/a'' 7 8192 4096 False)
         \<lparr>zv_open_count := 1, zv_written_to := True, zv_objset := True, zv_dn := True,
           zv_zilog := Some \<lparr>zl_id = 1, zl_logbias_throughput = False,
             zl_has_slogs = False, zl_max_copied_data = 7000, zl_replaying = False\<rparr>,
           zv_suspend_lock := RW_READER\<rparr>,
        [RW_TRYUPGRADE False, RW_EXIT, RW_ENTER RW_WRITER, RW_DOWNGRADE], 1)"
    by (simp add: zvol_ensure_zilog_def Let_def zvol_alloc_def rw_enter_def rw_exit_def
        rw_downgrade_def)
  note present = zvol_ensure_zilog_once [OF held run, THEN conjunct1]
  from present held run show ?thesis
    by simp
qed

section \<open>Properties of the intent-log records\<close>

lemma zvol_log_write_loop_forms:
  assumes "zvol_log_write_loop p2phase read_ok zilog blocksize write_state sync log offset sz = Some out"
  shows "(\<forall>r\<in>set log. itx_form_ok read_ok zilog write_state r) \<longrightarrow>
         (\<forall>r\<in>set out. itx_form_ok read_ok zilog write_state r)"
proof (rule zvol_log_write_loop.raw_induct [OF _ assms], goal_cases)
  case (1 loop p2phase read_ok zilog blocksize write_state sync log offset sz out)
  show ?case
  proof (cases "sz = 0")
    case True
    with 1(2) show ?thesis by simp
  next
    case False
    define len where "len =
      (if write_state = WR_INDIRECT then min (ucast blocksize - p2phase offset blocksize) sz
       else sz)"
    define st where "st =
      (if write_state = WR_INDIRECT then WR_INDIRECT
       else if write_state = WR_COPIED \<and> sz \<le> zl_max_copied_data zilog \<and> read_ok offset sz
       then WR_COPIED else WR_NEED_COPY)"
    define r where "r = \<lparr>itx_wr_state = st, itx_lr_offset = offset, itx_lr_length = len,
      itx_payload = (if st = WR_COPIED then len else 0), itx_sync = sync\<rparr>"
    have call: "loop p2phase read_ok zilog blocksize write_state sync (log @ [r])
        (offset + len) (sz - len) = Some out"
      using 1(2) False
      by (cases write_state) (auto simp: Let_def r_def len_def st_def not_less split: if_splits)
    have "itx_form_ok read_ok zilog write_state r"
      by (cases write_state) (auto simp: itx_form_ok_def r_def len_def st_def)
    with 1(1) [OF call] show ?thesis by simp
  qed
qed

lemma zvol_log_write_loop_done:
  "zvol_log_write_loop p2phase read_ok zilog blocksize write_state sync log offset 0 = Some log"
  by (subst zvol_log_write_loop.simps) simp

lemma zvol_log_write_loop_direct:
  assumes "write_state \<noteq> WR_INDIRECT" and "sz \<noteq> 0"
  shows "zvol_log_write_loop p2phase read_ok zilog blocksize write_state sync log offset sz =
     Some (log @ [\<lparr>itx_wr_state =
                     (if write_state = WR_COPIED \<and> sz \<le> zl_max_copied_data zilog
                         \<and> read_ok offset sz then WR_COPIED else WR_NEED_COPY),
                   itx_lr_offset = offset, itx_lr_length = sz,
                   itx_payload =
                     (if write_state = WR_COPIED \<and> sz \<le> zl_max_copied_data zilog
                         \<and> read_ok offset sz then sz else 0),
                   itx_sync = sync\<rparr>])"
  using assms
  apply (subst zvol_log_write_loop.simps)
  apply (cases write_state)
    apply (auto simp: Let_def not_less zvol_log_write_loop_done)
  done

lemma zvol_log_write_state_cases:
  "zvol_log_write_state zilog imm bs sz sync =
     (if zl_logbias_throughput zilog
         \<or> (\<not> zl_has_slogs zilog \<and> sz \<ge> ucast bs \<and> uint bs > sint imm)
      then WR_INDIRECT else if sync then WR_COPIED else WR_NEED_COPY)"
  by (simp add: zvol_log_write_state_def)

text \<open>
  Claim C7, as the code has it.  The form of a record is not chosen by comparing the
  size of the write with \<open>zvol_immediate_write_sz\<close>.  A record is logged by reference
  (\<open>WR_INDIRECT\<close>) exactly when the log bias is throughput, or when there is no separate
  log device, the write is at least one block long and the block size exceeds
  \<open>zvol_immediate_write_sz\<close>.  Otherwise a synchronous write is logged with an inline
  copy (\<open>WR_COPIED\<close>) provided the record is within \<open>zil_max_copied_data\<close> and the
  data can be read back; every other record, a failed read-back included, is
  \<open>WR_NEED_COPY\<close>: its data is copied when the log is committed, never referenced.
\<close>

theorem zvol_log_write_record_form:
  assumes "zv_zilog zv = Some zilog" and "\<not> zl_replaying zilog"
    and "zvol_log_write p2phase read_ok imm zv offset sz sync = Ret (Some log)"
    and "r \<in> set log"
  shows "itx_wr_state r =
     (if zl_logbias_throughput zilog
         \<or> (\<not> zl_has_slogs zilog \<and> sz \<ge> ucast (ucast (zv_volblocksize zv) :: u32)
              \<and> uint (ucast (zv_volblocksize zv) :: u32) > sint imm)
      then WR_INDIRECT
      else if sync \<and> itx_lr_length r \<le> zl_max_copied_data zilog
              \<and> read_ok (itx_lr_offset r) (itx_lr_length r)
      then WR_COPIED
      else WR_NEED_COPY)"
proof -
  define bs where "bs = (ucast (zv_volblocksize zv) :: u32)"
  define ws where "ws = zvol_log_write_state zilog imm bs sz sync"
  from assms(1-3) have loop:
    "zvol_log_write_loop p2phase read_ok zilog bs ws sync [] offset sz = Some log"
    by (simp add: zvol_log_write_def Let_def bs_def ws_def)
  from zvol_log_write_loop_forms [OF loop] assms(4)
  have form: "itx_form_ok read_ok zilog ws r"
    by simp
  have ws: "ws = (if zl_logbias_throughput zilog
         \<or> (\<not> zl_has_slogs zilog \<and> sz \<ge> ucast bs \<and> uint bs > sint imm)
      then WR_INDIRECT else if sync then WR_COPIED else WR_NEED_COPY)"
    unfolding ws_def by (rule zvol_log_write_state_cases)
  show ?thesis
  proof (cases "zl_logbias_throughput zilog
         \<or> (\<not> zl_has_slogs zilog \<and> sz \<ge> ucast bs \<and> uint bs > sint imm)")
    case True
    with ws have "ws = WR_INDIRECT" by simp
    with form have "itx_wr_state r = WR_INDIRECT" by (simp add: itx_form_ok_def)
    with True show ?thesis unfolding bs_def by simp
  next
    case False
    show ?thesis
    proof (cases sync)
      case True
      with ws False have "ws = WR_COPIED" by simp
      with form have "itx_wr_state r = (if itx_lr_length r \<le> zl_max_copied_data zilog
              \<and> read_ok (itx_lr_offset r) (itx_lr_length r) then WR_COPIED else WR_NEED_COPY)"
        by (simp add: itx_form_ok_def)
      with True False show ?thesis unfolding bs_def by simp
    next
      case nsync: False
      with ws False have "ws = WR_NEED_COPY" by simp
      with form have "itx_wr_state r = WR_NEED_COPY" by (simp add: itx_form_ok_def)
      with nsync False show ?thesis unfolding bs_def by simp
    qed
  qed
qed

theorem zvol_log_write_record_form_witness:
  "zvol_log_write P2PHASE (\<lambda>off len. False) 32768
     ((zvol_alloc ''tank/a'' 7 1073741824 8192 False)
        \<lparr>zv_zilog := Some \<lparr>zl_id = 0, zl_logbias_throughput = False, zl_has_slogs = True,
            zl_max_copied_data = 131072, zl_replaying = False\<rparr>\<rparr>) 0 4096 True
   = Ret (Some [\<lparr>itx_wr_state = WR_NEED_COPY, itx_lr_offset = 0, itx_lr_length = 4096,
                  itx_payload = 0, itx_sync = True\<rparr>])
   \<and> itx_wr_state \<lparr>itx_wr_state = WR_NEED_COPY, itx_lr_offset = 0, itx_lr_length = 4096,
                  itx_payload = 0, itx_sync = True\<rparr> = WR_NEED_COPY"
proof -
  let ?zilog = "\<lparr>zl_id = 0, zl_logbias_throughput = False, zl_has_slogs = True,
            zl_max_copied_data = 131072, zl_replaying = False\<rparr>"
  let ?zv = "(zvol_alloc ''tank/a'' 7 1073741824 8192 False)\<lparr>zv_zilog := Some ?zilog\<rparr>"
  let ?r = "\<lparr>itx_wr_state = WR_NEED_COPY, itx_lr_offset = 0, itx_lr_length = 4096,
                  itx_payload = 0, itx_sync = True\<rparr>"
  have z: "zv_zilog ?zv = Some ?zilog" by simp
  have nr: "\<not> zl_replaying ?zilog" by simp
  have run: "zvol_log_write P2PHASE (\<lambda>off len. False) 32768 ?zv 0 4096 True = Ret (Some [?r])"
    by (simp add: zvol_log_write_def zvol_log_write_state_def zvol_alloc_def Let_def
        zvol_log_write_loop_direct)
  have mem: "?r \<in> set [?r]" by simp
  from zvol_log_write_record_form [OF z nr run mem]
  have form: "itx_wr_state ?r = WR_NEED_COPY" by simp
  from run form show ?thesis by (rule conjI)
qed

theorem zvol_log_write_threshold_counterexample:
  "(32768 :: u64) < 65536
   \<and> zvol_log_write P2PHASE (\<lambda>off len. True) 32768
       ((zvol_alloc ''tank/a'' 7 1073741824 8192 False)
          \<lparr>zv_zilog := Some \<lparr>zl_id = 0, zl_logbias_throughput = False, zl_has_slogs = True,
              zl_max_copied_data = 131072, zl_replaying = False\<rparr>\<rparr>) 0 65536 True
     = Ret (Some [\<lparr>itx_wr_state = WR_COPIED, itx_lr_offset = 0, itx_lr_length = 65536,
                    itx_payload = 65536, itx_sync = True\<rparr>])
   \<and> (512 :: u64) < 32768
   \<and> zvol_log_write P2PHASE (\<lambda>off len. True) 32768
       ((zvol_alloc ''tank/a'' 7 1073741824 8192 False)
          \<lparr>zv_zilog := Some \<lparr>zl_id = 0, zl_logbias_throughput = True, zl_has_slogs = True,
              zl_max_copied_data = 131072, zl_replaying = False\<rparr>\<rparr>) 0 512 True
     = Ret (Some [\<lparr>itx_wr_state = WR_INDIRECT, itx_lr_offset = 0, itx_lr_length = 512,
                    itx_payload = 0, itx_sync = True\<rparr>])"
proof -
  have large: "zvol_log_write P2PHASE (\<lambda>off len. True) 32768
       ((zvol_alloc ''tank/a'' 7 1073741824 8192 False)
          \<lparr>zv_zilog := Some \<lparr>zl_id = 0, zl_logbias_throughput = False, zl_has_slogs = True,
              zl_max_copied_data = 131072, zl_replaying = False\<rparr>\<rparr>) 0 65536 True
     = Ret (Some [\<lparr>itx_wr_state = WR_COPIED, itx_lr_offset = 0, itx_lr_length = 65536,
                    itx_payload = 65536, itx_sync = True\<rparr>])"
    by (simp add: zvol_log_write_def zvol_log_write_state_def zvol_alloc_def Let_def
        zvol_log_write_loop_direct)
  have round: "zvol_log_write_loop P2PHASE (\<lambda>off len. True)
        \<lparr>zl_id = 0, zl_logbias_throughput = True, zl_has_slogs = True,
          zl_max_copied_data = 131072, zl_replaying = False\<rparr> 8192 WR_INDIRECT True [] 0 512
      = Some [\<lparr>itx_wr_state = WR_INDIRECT, itx_lr_offset = 0, itx_lr_length = 512,
                    itx_payload = 0, itx_sync = True\<rparr>]"
    by (subst zvol_log_write_loop.simps)
      (simp add: Let_def P2PHASE_def zvol_log_write_loop_done)
  have small: "zvol_log_write P2PHASE (\<lambda>off len. True) 32768
       ((zvol_alloc ''tank/a'' 7 1073741824 8192 False)
          \<lparr>zv_zilog := Some \<lparr>zl_id = 0, zl_logbias_throughput = True, zl_has_slogs = True,
              zl_max_copied_data = 131072, zl_replaying = False\<rparr>\<rparr>) 0 512 True
     = Ret (Some [\<lparr>itx_wr_state = WR_INDIRECT, itx_lr_offset = 0, itx_lr_length = 512,
                    itx_payload = 0, itx_sync = True\<rparr>])"
    by (simp add: zvol_log_write_def zvol_log_write_state_def zvol_alloc_def Let_def round)
  have lt1: "(32768 :: u64) < 65536" and lt2: "(512 :: u64) < 32768" by simp_all
  from lt1 large lt2 small show ?thesis by (intro conjI)
qed

section \<open>Properties of the I/O pipeline\<close>

lemma zvol_dmu_ctx_init_deferred_effect:
  assumes "zvol_dmu_ctx_init_deferred zv = (zv', evs)"
  shows "starts evs = [] \<and> issues evs = [] \<and> zv_suspend_ref zv' = zv_suspend_ref zv
     \<and> (\<forall>z\<in>set (dispatches evs). zds_retry z)
     \<and> (if zv_deferred zv = []
         then zv_active zv' = zv_active zv - 1 \<and> dispatches evs = [] \<and> zv_deferred zv' = []
         else zv_active zv' = zv_active zv \<and> length (dispatches evs) = 1
              \<and> zv_deferred zv' = tl (zv_deferred zv))"
  using assms by (auto simp: zvol_dmu_ctx_init_deferred_def split: list.splits)

lemma zvol_strategy_done_effect:
  "zvol_strategy_done zds err zv =
     (zv\<lparr>zv_suspend_ref := zv_suspend_ref zv - 1\<rparr>, [ZVOL_DONE (zds_id zds) err])"
  by (simp add: zvol_strategy_done_def zvol_rele_def)

lemma dispatches_append [simp]: "dispatches (xs @ ys) = dispatches xs @ dispatches ys"
  by (induction xs rule: dispatches.induct) auto

lemma starts_append [simp]: "starts (xs @ ys) = starts xs @ starts ys"
  by (induction xs rule: starts.induct) auto

lemma issues_append [simp]: "issues (xs @ ys) = issues xs @ issues ys"
  by (induction xs rule: issues.induct) auto

lemma zvol_dmu_err_effect:
  assumes "zvol_dmu_err zds zvol_strategy_dmu_err zv = (zv', evs)"
  shows "starts evs = [] \<and> issues evs = [] \<and> evs \<noteq> []
     \<and> zv_suspend_ref zv' = zv_suspend_ref zv - 1
     \<and> (\<forall>z\<in>set (dispatches evs). zds_retry z)
     \<and> (if zv_deferred zv = []
         then zv_active zv' = zv_active zv - 1 \<and> dispatches evs = [] \<and> zv_deferred zv' = []
         else zv_active zv' = zv_active zv \<and> length (dispatches evs) = 1
              \<and> zv_deferred zv' = tl (zv_deferred zv))"
  using assms
    zvol_dmu_ctx_init_deferred_effect [of "zv\<lparr>zv_suspend_ref := zv_suspend_ref zv - 1\<rparr>"]
  by (auto simp: zvol_dmu_err_def zvol_strategy_dmu_err_def zvol_strategy_done_effect
      split: prod.splits)


lemma zvol_dmu_ctx_init_fresh:
  assumes "zvol_dmu_ctx_init n env os err_cb zds zv = Ret (err, zds', zv', evs)"
    and "\<not> zds_retry zds"
  defines "verr \<equiv> (zds_io_size zds > 0 \<and> zds_off zds \<ge> zv_volsize zv)
                     \<or> (\<not> zds_reader zds \<and> zv_rdonly zv)"
  shows "(verr \<longrightarrow> err = Some EIO \<and> evs = []
            \<and> zv' = zv\<lparr>zv_suspend_ref := zv_suspend_ref zv + 1\<rparr>)
     \<and> (\<not> verr \<and> zvol_dmu_max_active n zv \<longrightarrow> err = Some EINPROGRESS \<and> evs = []
            \<and> zv' = zv\<lparr>zv_suspend_ref := zv_suspend_ref zv + 1,
                       zv_deferred := zv_deferred zv @ [zds']\<rparr>)
     \<and> (\<not> verr \<and> \<not> zvol_dmu_max_active n zv \<and> ce_dmu_ctx_init env = None \<longrightarrow>
            zv' = zv\<lparr>zv_suspend_ref := zv_suspend_ref zv + 1, zv_active := zv_active zv + 1\<rparr>
            \<and> err = (if zds_reader zds then ce_rangelock env else Some EINPROGRESS)
            \<and> starts evs = [zds_id zds] \<and> dispatches evs = [] \<and> issues evs = []
            \<and> hd evs = DMU_CTX_INIT (zds_id zds) (zds_off zds) (zds_io_size zds'))
     \<and> (\<not> verr \<and> \<not> zvol_dmu_max_active n zv \<and> ce_dmu_ctx_init env \<noteq> None \<longrightarrow>
            err = ce_dmu_ctx_init env
            \<and> (\<exists>evs0. evs = DMU_CTX_INIT (zds_id zds) (zds_off zds) (zds_io_size zds') # evs0
                  \<and> zvol_dmu_err zds' err_cb
                       (zv\<lparr>zv_suspend_ref := zv_suspend_ref zv + 1,
                           zv_active := zv_active zv + 1\<rparr>) = (zv', evs0)))"
  using assms(1,2) unfolding verr_def
  by (auto simp: zvol_dmu_ctx_init_def zvol_dmu_max_active_def Let_def
      split: if_splits prod.splits option.splits)

lemma zvol_dmu_ctx_init_retry:
  assumes "zvol_dmu_ctx_init n env os err_cb zds zv = Ret (err, zds', zv', evs)"
    and "zds_retry zds"
  defines "verr \<equiv> (zds_io_size zds > 0 \<and> zds_off zds \<ge> zv_volsize zv)
                     \<or> (\<not> zds_reader zds \<and> zv_rdonly zv)"
  shows "(verr \<longrightarrow> err = Some EIO \<and> zvol_dmu_err zds' err_cb zv = (zv', evs))
     \<and> (\<not> verr \<and> ce_dmu_ctx_init env = None \<longrightarrow>
            zv' = zv \<and> starts evs = [zds_id zds] \<and> dispatches evs = [] \<and> issues evs = []
            \<and> hd evs = DMU_CTX_INIT (zds_id zds) (zds_off zds) (zds_io_size zds'))
     \<and> (\<not> verr \<and> ce_dmu_ctx_init env \<noteq> None \<longrightarrow>
            err = ce_dmu_ctx_init env
            \<and> (\<exists>evs0. evs = DMU_CTX_INIT (zds_id zds) (zds_off zds) (zds_io_size zds') # evs0
                  \<and> zvol_dmu_err zds' err_cb zv = (zv', evs0)))"
  using assms(1,2) unfolding verr_def
  by (auto simp: zvol_dmu_ctx_init_def zvol_dmu_max_active_def Let_def
      split: if_splits prod.splits option.splits)






lemma zvol_dmu_ctx_init_keeps_fresh:
  "zvol_dmu_ctx_init n env os err_cb zds zv = Ret (err, zds', zv', evs) \<Longrightarrow>
     zds_retry zds' = zds_retry zds \<and> zds_id zds' = zds_id zds"
  by (auto simp: zvol_dmu_ctx_init_def Let_def split: if_splits prod.splits option.splits)















lemma zvol_dmu_err_no_init:
  "zvol_dmu_err z zvol_strategy_dmu_err zv = (zv', evs) \<Longrightarrow> DMU_CTX_INIT i off len \<notin> set evs"
  by (auto simp: zvol_dmu_err_def zvol_strategy_dmu_err_def zvol_strategy_done_def
      zvol_dmu_ctx_init_deferred_def split: list.splits)

lemma zvol_dmu_ctx_init_bounds:
  assumes "zvol_dmu_ctx_init n env os zvol_strategy_dmu_err zds zv = Ret (err, zds', zv', evs)"
  shows "(zds_io_size zds > 0 \<and> zds_off zds \<ge> zv_volsize zv \<longrightarrow>
            err = Some EIO \<and> starts evs = []
            \<and> (\<forall>i off len. DMU_CTX_INIT i off len \<notin> set evs)
            \<and> (\<not> zds_retry zds \<longrightarrow> evs = [] \<and> zv_active zv' = zv_active zv
                  \<and> zv_deferred zv' = zv_deferred zv))
     \<and> (zds_io_size zds = 0 \<and> (zds_reader zds \<or> \<not> zv_rdonly zv) \<longrightarrow>
            (if \<not> zds_retry zds \<and> zvol_dmu_max_active n zv
             then err = Some EINPROGRESS \<and> zv_deferred zv' = zv_deferred zv @ [zds']
             else hd evs = DMU_CTX_INIT (zds_id zds) (zds_off zds) 0
                \<and> (ce_dmu_ctx_init env = None \<longrightarrow> starts evs = [zds_id zds]
                      \<and> err = (if zds_reader zds then ce_rangelock env
                               else Some EINPROGRESS))))
     \<and> (zds_off zds < zv_volsize zv \<and> (zds_reader zds \<or> \<not> zv_rdonly zv)
          \<and> (zds_retry zds \<or> \<not> zvol_dmu_max_active n zv) \<longrightarrow>
            zds_io_size zds' = min (zds_io_size zds) (zv_volsize zv - zds_off zds)
            \<and> unat (zds_off zds) + unat (zds_io_size zds') \<le> unat (zv_volsize zv)
            \<and> (unat (zds_off zds) + unat (zds_io_size zds) > unat (zv_volsize zv) \<longrightarrow>
                  unat (zds_off zds) + unat (zds_io_size zds') = unat (zv_volsize zv))
            \<and> hd evs = DMU_CTX_INIT (zds_id zds) (zds_off zds) (zds_io_size zds'))"
proof -
  have beyond: "err = Some EIO \<and> starts evs = []
            \<and> (\<forall>i off len. DMU_CTX_INIT i off len \<notin> set evs)
            \<and> (\<not> zds_retry zds \<longrightarrow> evs = [] \<and> zv_active zv' = zv_active zv
                  \<and> zv_deferred zv' = zv_deferred zv)"
    if b: "zds_io_size zds > 0 \<and> zds_off zds \<ge> zv_volsize zv"
  proof (cases "zds_retry zds")
    case True
    from zvol_dmu_ctx_init_retry [OF assms True] b
    have e: "err = Some EIO" and d: "zvol_dmu_err zds' zvol_strategy_dmu_err zv = (zv', evs)"
      by auto
    from zvol_dmu_err_effect [OF d] zvol_dmu_err_no_init [OF d] e True show ?thesis by simp
  next
    case False
    from zvol_dmu_ctx_init_fresh [OF assms False] b False show ?thesis by simp
  qed
  have zero: "(if \<not> zds_retry zds \<and> zvol_dmu_max_active n zv
             then err = Some EINPROGRESS \<and> zv_deferred zv' = zv_deferred zv @ [zds']
             else hd evs = DMU_CTX_INIT (zds_id zds) (zds_off zds) 0
                \<and> (ce_dmu_ctx_init env = None \<longrightarrow> starts evs = [zds_id zds]
                      \<and> err = (if zds_reader zds then ce_rangelock env
                               else Some EINPROGRESS)))"
    if z: "zds_io_size zds = 0 \<and> (zds_reader zds \<or> \<not> zv_rdonly zv)"
    using assms z
    by (auto simp: zvol_dmu_ctx_init_def zvol_dmu_max_active_def Let_def zvol_dmu_err_def
        split: if_splits prod.splits option.splits)
  have trunc: "zds_io_size zds' = min (zds_io_size zds) (zv_volsize zv - zds_off zds)
            \<and> unat (zds_off zds) + unat (zds_io_size zds') \<le> unat (zv_volsize zv)
            \<and> (unat (zds_off zds) + unat (zds_io_size zds) > unat (zv_volsize zv) \<longrightarrow>
                  unat (zds_off zds) + unat (zds_io_size zds') = unat (zv_volsize zv))
            \<and> hd evs = DMU_CTX_INIT (zds_id zds) (zds_off zds) (zds_io_size zds')"
    if t: "zds_off zds < zv_volsize zv \<and> (zds_reader zds \<or> \<not> zv_rdonly zv)
          \<and> (zds_retry zds \<or> \<not> zvol_dmu_max_active n zv)"
  proof -
    from assms t have sz: "zds_io_size zds' = min (zds_io_size zds) (zv_volsize zv - zds_off zds)"
      and hd: "hd evs = DMU_CTX_INIT (zds_id zds) (zds_off zds) (zds_io_size zds')"
      by (auto simp: zvol_dmu_ctx_init_def zvol_dmu_max_active_def Let_def zvol_dmu_err_def
          not_le split: if_splits prod.splits option.splits)
    from t have "zds_off zds < zv_volsize zv" by blast
    then have le: "zds_off zds \<le> zv_volsize zv" by (rule order.strict_implies_order)
    have sub: "unat (zv_volsize zv - zds_off zds) = unat (zv_volsize zv) - unat (zds_off zds)"
      using le by (simp add: unat_sub)
    have mn: "unat (zds_io_size zds') =
        min (unat (zds_io_size zds)) (unat (zv_volsize zv) - unat (zds_off zds))"
      unfolding sz sub [symmetric] by (simp add: min_def word_le_nat_alt)
    from le have "unat (zds_off zds) \<le> unat (zv_volsize zv)" by (simp add: word_le_nat_alt)
    with mn sz hd show ?thesis by (auto simp: min_def)
  qed
  from beyond zero trunc show ?thesis by blast
qed

section \<open>Properties of the character-device write\<close>

lemma zvol_cdev_write_loop_done:
  "\<not> (0 <s uio_resid uio \<and> uio_loffset uio < volsize) \<Longrightarrow>
     zvol_cdev_write_loop mx env volsize sync uio ops = Some (None, ops)"
  by (subst zvol_cdev_write_loop.simps) auto

lemma chunk_inside:
  fixes off volsize b0 :: u64
  assumes "off < volsize"
  shows "unat off + unat (if b0 > volsize - off then volsize - off else b0) \<le> unat volsize"
proof -
  from assms have le: "off \<le> volsize" by (rule order.strict_implies_order)
  have sub: "unat (volsize - off) = unat volsize - unat off"
    using le by (simp add: unat_sub)
  from le have "unat off \<le> unat volsize" by (simp add: word_le_nat_alt)
  with sub show ?thesis by (auto simp: word_less_nat_alt not_less word_le_nat_alt)
qed

lemma zvol_cdev_write_loop_inside:
  assumes "zvol_cdev_write_loop mx env volsize sync uio ops = Some out"
  shows "list_all (write_inside volsize) ops \<longrightarrow>
     list_all (write_inside volsize) (snd out) \<and> (\<exists>more. snd out = ops @ more)"
proof (rule zvol_cdev_write_loop.raw_induct [OF _ assms], goal_cases)
  case (1 loop mx env volsize sync uio ops out)
  show ?case
  proof (cases "0 <s uio_resid uio \<and> uio_loffset uio < volsize")
    case False
    with 1(2) show ?thesis by auto
  next
    case True
    define b0 where "b0 = (if uio_resid uio <s drop_bit 1 mx then uio_resid uio
                       else drop_bit 1 mx)"
    define off where "off = uio_loffset uio"
    define bytes where "bytes = (if b0 > volsize - off then volsize - off else b0)"
    from True have lt: "off < volsize" by (simp add: off_def)
    from chunk_inside [OF lt, of b0] have fit: "unat off + unat bytes \<le> unat volsize"
      by (simp add: bytes_def)
    show ?thesis
    proof (cases "we_tx_assign env off")
      case (Some e)
      with 1(2) True have "snd out = ops @ [TX_HOLD_WRITE off bytes, TX_ABORT]"
        by (auto simp: Let_def b0_def off_def bytes_def)
      with lt fit show ?thesis by auto
    next
      case None
      show ?thesis
      proof (cases "we_write_uio env off")
        case (Some e)
        with None 1(2) True
        have "snd out = ops @ [TX_HOLD_WRITE off bytes, WRITE_UIO off bytes, TX_COMMIT]"
          by (auto simp: Let_def b0_def off_def bytes_def)
        with lt fit show ?thesis by auto
      next
        case n2: None
        with None 1(2) True
        have r: "loop mx env volsize sync
                   (uio\<lparr>uio_loffset := off + bytes, uio_resid := uio_resid uio - bytes\<rparr>)
                   (ops @ [TX_HOLD_WRITE off bytes, WRITE_UIO off bytes,
                           LOG_WRITE off bytes sync, TX_COMMIT]) = Some out"
          by (auto simp: Let_def b0_def off_def bytes_def)
        have step: "list_all (write_inside volsize) ops \<Longrightarrow> list_all (write_inside volsize)
            (ops @ [TX_HOLD_WRITE off bytes, WRITE_UIO off bytes,
                    LOG_WRITE off bytes sync, TX_COMMIT])"
          using lt fit by auto
        from 1(1) [OF r] step show ?thesis by auto
      qed
    qed
  qed
qed

lemma zvol_cdev_write_beyond:
  assumes "0 <s uio_resid uio"
    and "uio_loffset uio <s 0 \<or> uio_loffset uio > zv_volsize zv"
  shows "zvol_cdev_write mx wenv os io_sync uio zv = Ret (Some (Some EIO, zv, []))"
  using assms by (simp add: zvol_cdev_write_def)

lemma zvol_cdev_write_at_end:
  assumes "uio_loffset uio = zv_volsize zv" and "\<not> uio_loffset uio <s 0"
    and "io_sync \<or> zv_objset zv"
  shows "zvol_cdev_write mx wenv os io_sync uio zv =
     Ret (Some (None,
       rw_exit (fst (zvol_ensure_zilog (we_zilog wenv) (rw_enter RW_READER zv))),
       [RANGELOCK_ENTER (uio_loffset uio) (uio_resid uio) RW_WRITER, RANGELOCK_EXIT]
         @ (if io_sync \<or> os_sync_always os then [ZIL_COMMIT] else [])))"
proof -
  have loop: "zvol_cdev_write_loop mx wenv (zv_volsize zv) sync uio ops = Some (None, ops)"
    for sync ops
    using assms(1) by (intro zvol_cdev_write_loop_done) simp
  from assms show ?thesis
    by (auto simp: zvol_cdev_write_def Let_def loop split: prod.splits)
qed

lemma zvol_cdev_write_inside:
  assumes "zvol_cdev_write mx wenv os io_sync uio zv = Ret (Some (e, zv', ops))"
  shows "list_all (write_inside (zv_volsize zv)) ops"
proof (cases "0 <s uio_resid uio \<and> (uio_loffset uio <s 0 \<or> uio_loffset uio > zv_volsize zv)")
  case True
  with assms show ?thesis by (simp add: zvol_cdev_write_def)
next
  case False
  define sync where "sync = (io_sync \<or> os_sync_always os)"
  from False assms obtain e1 ops1 where
    l: "zvol_cdev_write_loop mx wenv (zv_volsize zv) sync uio
          [RANGELOCK_ENTER (uio_loffset uio) (uio_resid uio) RW_WRITER] = Some (e1, ops1)"
    and o: "ops = ops1 @ [RANGELOCK_EXIT] @ (if sync then [ZIL_COMMIT] else [])"
    by (auto simp: zvol_cdev_write_def Let_def sync_def
        split: if_splits prod.splits option.splits)
  from zvol_cdev_write_loop_inside [OF l] have "list_all (write_inside (zv_volsize zv)) ops1"
    by simp
  with o show ?thesis by simp
qed

text \<open>
  Claim C5, as the code has it.  In \<open>zvol_dmu_ctx_init\<close> a context of positive length
  whose offset is at or beyond the volume size is refused with \<open>EIO\<close>: \<open>dmu_ctx_init\<close>
  is not called, no range lock is asked for and no write is set up, and a new context is
  neither counted nor queued.  A context of length zero is not refused for its offset:
  it is queued or handed to \<open>dmu_ctx_init\<close> with length zero.  A context that starts
  inside the volume and goes on is handed to \<open>dmu_ctx_init\<close> with its length cut to the
  distance to the end of the volume, so that it ends at the volume size when it would
  have passed it.  \<open>zvol_cdev_write\<close>, which builds no context, refuses a request of
  positive length with \<open>EIO\<close>, before any lock or transaction, only when its offset is
  negative or beyond the volume size; a request that starts exactly at the volume size
  takes and releases the range lock, writes nothing and returns 0.  Every range it
  writes starts inside the volume and ends at or before the volume size.
\<close>

theorem zvol_bounds_checked:
  "(zvol_dmu_ctx_init n env os zvol_strategy_dmu_err zds zv = Ret (err, zds', zv', evs) \<longrightarrow>
      (zds_io_size zds > 0 \<and> zds_off zds \<ge> zv_volsize zv \<longrightarrow>
            err = Some EIO \<and> starts evs = []
            \<and> (\<forall>i off len. DMU_CTX_INIT i off len \<notin> set evs)
            \<and> (\<not> zds_retry zds \<longrightarrow> evs = [] \<and> zv_active zv' = zv_active zv
                  \<and> zv_deferred zv' = zv_deferred zv))
      \<and> (zds_io_size zds = 0 \<and> (zds_reader zds \<or> \<not> zv_rdonly zv) \<longrightarrow>
            (if \<not> zds_retry zds \<and> zvol_dmu_max_active n zv
             then err = Some EINPROGRESS \<and> zv_deferred zv' = zv_deferred zv @ [zds']
             else hd evs = DMU_CTX_INIT (zds_id zds) (zds_off zds) 0
                \<and> (ce_dmu_ctx_init env = None \<longrightarrow> starts evs = [zds_id zds]
                      \<and> err = (if zds_reader zds then ce_rangelock env
                               else Some EINPROGRESS))))
      \<and> (zds_off zds < zv_volsize zv \<and> (zds_reader zds \<or> \<not> zv_rdonly zv)
          \<and> (zds_retry zds \<or> \<not> zvol_dmu_max_active n zv) \<longrightarrow>
            zds_io_size zds' = min (zds_io_size zds) (zv_volsize zv - zds_off zds)
            \<and> unat (zds_off zds) + unat (zds_io_size zds') \<le> unat (zv_volsize zv)
            \<and> (unat (zds_off zds) + unat (zds_io_size zds) > unat (zv_volsize zv) \<longrightarrow>
                  unat (zds_off zds) + unat (zds_io_size zds') = unat (zv_volsize zv))
            \<and> hd evs = DMU_CTX_INIT (zds_id zds) (zds_off zds) (zds_io_size zds')))
   \<and> (0 <s uio_resid uio \<and> (uio_loffset uio <s 0 \<or> uio_loffset uio > zv_volsize zvc) \<longrightarrow>
        zvol_cdev_write mx wenv osc io_sync uio zvc = Ret (Some (Some EIO, zvc, [])))
   \<and> (uio_loffset uio = zv_volsize zvc \<and> \<not> uio_loffset uio <s 0
        \<and> (io_sync \<or> zv_objset zvc) \<longrightarrow>
        zvol_cdev_write mx wenv osc io_sync uio zvc =
          Ret (Some (None,
            rw_exit (fst (zvol_ensure_zilog (we_zilog wenv) (rw_enter RW_READER zvc))),
            [RANGELOCK_ENTER (uio_loffset uio) (uio_resid uio) RW_WRITER, RANGELOCK_EXIT]
              @ (if io_sync \<or> os_sync_always osc then [ZIL_COMMIT] else []))))
   \<and> (zvol_cdev_write mx wenv osc io_sync uio zvc = Ret (Some (e, zvc', ops)) \<longrightarrow>
        list_all (write_inside (zv_volsize zvc)) ops)"
proof -
  have b: "0 <s uio_resid uio \<and> (uio_loffset uio <s 0 \<or> uio_loffset uio > zv_volsize zvc) \<longrightarrow>
        zvol_cdev_write mx wenv osc io_sync uio zvc = Ret (Some (Some EIO, zvc, []))"
    using zvol_cdev_write_beyond [of uio zvc mx wenv osc io_sync] by blast
  have a: "uio_loffset uio = zv_volsize zvc \<and> \<not> uio_loffset uio <s 0
        \<and> (io_sync \<or> zv_objset zvc) \<longrightarrow>
        zvol_cdev_write mx wenv osc io_sync uio zvc =
          Ret (Some (None,
            rw_exit (fst (zvol_ensure_zilog (we_zilog wenv) (rw_enter RW_READER zvc))),
            [RANGELOCK_ENTER (uio_loffset uio) (uio_resid uio) RW_WRITER, RANGELOCK_EXIT]
              @ (if io_sync \<or> os_sync_always osc then [ZIL_COMMIT] else [])))"
    using zvol_cdev_write_at_end [of uio zvc io_sync mx wenv osc] by blast
  have i: "zvol_cdev_write mx wenv osc io_sync uio zvc = Ret (Some (e, zvc', ops)) \<longrightarrow>
        list_all (write_inside (zv_volsize zvc)) ops"
    using zvol_cdev_write_inside [of mx wenv osc io_sync uio zvc e zvc' ops] by blast
  have c: "zvol_dmu_ctx_init n env os zvol_strategy_dmu_err zds zv = Ret (err, zds', zv', evs) \<longrightarrow>
      (zds_io_size zds > 0 \<and> zds_off zds \<ge> zv_volsize zv \<longrightarrow>
            err = Some EIO \<and> starts evs = []
            \<and> (\<forall>i off len. DMU_CTX_INIT i off len \<notin> set evs)
            \<and> (\<not> zds_retry zds \<longrightarrow> evs = [] \<and> zv_active zv' = zv_active zv
                  \<and> zv_deferred zv' = zv_deferred zv))
      \<and> (zds_io_size zds = 0 \<and> (zds_reader zds \<or> \<not> zv_rdonly zv) \<longrightarrow>
            (if \<not> zds_retry zds \<and> zvol_dmu_max_active n zv
             then err = Some EINPROGRESS \<and> zv_deferred zv' = zv_deferred zv @ [zds']
             else hd evs = DMU_CTX_INIT (zds_id zds) (zds_off zds) 0
                \<and> (ce_dmu_ctx_init env = None \<longrightarrow> starts evs = [zds_id zds]
                      \<and> err = (if zds_reader zds then ce_rangelock env
                               else Some EINPROGRESS))))
      \<and> (zds_off zds < zv_volsize zv \<and> (zds_reader zds \<or> \<not> zv_rdonly zv)
          \<and> (zds_retry zds \<or> \<not> zvol_dmu_max_active n zv) \<longrightarrow>
            zds_io_size zds' = min (zds_io_size zds) (zv_volsize zv - zds_off zds)
            \<and> unat (zds_off zds) + unat (zds_io_size zds') \<le> unat (zv_volsize zv)
            \<and> (unat (zds_off zds) + unat (zds_io_size zds) > unat (zv_volsize zv) \<longrightarrow>
                  unat (zds_off zds) + unat (zds_io_size zds') = unat (zv_volsize zv))
            \<and> hd evs = DMU_CTX_INIT (zds_id zds) (zds_off zds) (zds_io_size zds'))"
    by (rule impI) (rule zvol_dmu_ctx_init_bounds)
  from c b a i show ?thesis by (intro conjI)
qed

section \<open>The pipeline on concrete requests\<close>





theorem zvol_bounds_checked_witness:
  "zvol_dmu_ctx_init 4 \<lparr>ce_dmu_ctx_init = None, ce_rangelock = None\<rparr>
     \<lparr>os_zap_size = 8192, os_data_block_size = 4096, os_sync_always = False\<rparr>
     zvol_strategy_dmu_err
     \<lparr>zds_id = 0, zds_off = 4096, zds_io_size = 8192, zds_reader = False,
       zds_sync = False, zds_retry = False, zds_async = False, zds_dc_err = None\<rparr>
     ((zvol_alloc ''tank/a'' 7 8192 4096 False)
        \<lparr>zv_open_count := 1, zv_objset := True, zv_dn := True\<rparr>)
   = Ret (Some EINPROGRESS,
      \<lparr>zds_id = 0, zds_off = 4096, zds_io_size = 4096, zds_reader = False,
        zds_sync = False, zds_retry = False, zds_async = False, zds_dc_err = None\<rparr>,
      (zvol_alloc ''tank/a'' 7 8192 4096 False)
        \<lparr>zv_open_count := 1, zv_objset := True, zv_dn := True,
          zv_suspend_ref := 1, zv_active := 1\<rparr>,
      [DMU_CTX_INIT 0 4096 4096, CTX_INIT_WRITE 0])
   \<and> zvol_dmu_ctx_init 4 \<lparr>ce_dmu_ctx_init = None, ce_rangelock = None\<rparr>
       \<lparr>os_zap_size = 8192, os_data_block_size = 4096, os_sync_always = False\<rparr>
       zvol_strategy_dmu_err
       \<lparr>zds_id = 0, zds_off = 8192, zds_io_size = 512, zds_reader = False,
         zds_sync = False, zds_retry = False, zds_async = False, zds_dc_err = None\<rparr>
       ((zvol_alloc ''tank/a'' 7 8192 4096 False)
          \<lparr>zv_open_count := 1, zv_objset := True, zv_dn := True\<rparr>)
     = Ret (Some EIO,
        \<lparr>zds_id = 0, zds_off = 8192, zds_io_size = 512, zds_reader = False,
          zds_sync = False, zds_retry = False, zds_async = False, zds_dc_err = None\<rparr>,
        (zvol_alloc ''tank/a'' 7 8192 4096 False)
          \<lparr>zv_open_count := 1, zv_objset := True, zv_dn := True, zv_suspend_ref := 1\<rparr>, [])
   \<and> unat (zds_off \<lparr>zds_id = 0, zds_off = 4096, zds_io_size = 8192, zds_reader = False,
              zds_sync = False, zds_retry = False, zds_async = False, zds_dc_err = None\<rparr>)
       + unat (zds_io_size \<lparr>zds_id = 0, zds_off = 4096, zds_io_size = 4096, zds_reader = False,
              zds_sync = False, zds_retry = False, zds_async = False, zds_dc_err = None\<rparr>)
     = unat (zv_volsize ((zvol_alloc ''tank/a'' 7 8192 4096 False)
          \<lparr>zv_open_count := 1, zv_objset := True, zv_dn := True\<rparr>))
   \<and> zvol_cdev_write 67108864
        \<lparr>we_zilog = \<lparr>ze_tryupgrade = True, ze_interfere = (\<lambda>zv. zv),
            ze_zil_open = \<lparr>zl_id = 0, zl_logbias_throughput = False, zl_has_slogs = False,
              zl_max_copied_data = 131072, zl_replaying = False\<rparr>\<rparr>,
          we_tx_assign = (\<lambda>off. None), we_write_uio = (\<lambda>off. None)\<rparr>
        \<lparr>os_zap_size = 8192, os_data_block_size = 4096, os_sync_always = False\<rparr> False
        \<lparr>uio_loffset = 12288, uio_resid = 512\<rparr>
        ((zvol_alloc ''tank/a'' 7 8192 4096 False)
          \<lparr>zv_open_count := 1, zv_objset := True, zv_dn := True\<rparr>)
     = Ret (Some (Some EIO,
         (zvol_alloc ''tank/a'' 7 8192 4096 False)
           \<lparr>zv_open_count := 1, zv_objset := True, zv_dn := True\<rparr>, []))"
proof -
  let ?env = "\<lparr>ce_dmu_ctx_init = None, ce_rangelock = None\<rparr>"
  let ?os = "\<lparr>os_zap_size = 8192, os_data_block_size = 4096, os_sync_always = False\<rparr>"
  let ?zv = "(zvol_alloc ''tank/a'' 7 8192 4096 False)
        \<lparr>zv_open_count := 1, zv_objset := True, zv_dn := True\<rparr>"
  let ?zds = "\<lparr>zds_id = 0, zds_off = 4096, zds_io_size = 8192, zds_reader = False,
       zds_sync = False, zds_retry = False, zds_async = False, zds_dc_err = None\<rparr>"
  let ?zds' = "\<lparr>zds_id = 0, zds_off = 4096, zds_io_size = 4096, zds_reader = False,
        zds_sync = False, zds_retry = False, zds_async = False, zds_dc_err = None\<rparr>"
  let ?uio = "\<lparr>uio_loffset = 12288, uio_resid = 512\<rparr> :: uio"
  have inside: "zvol_dmu_ctx_init 4 ?env ?os zvol_strategy_dmu_err ?zds ?zv
     = Ret (Some EINPROGRESS, ?zds',
        (zvol_alloc ''tank/a'' 7 8192 4096 False)
          \<lparr>zv_open_count := 1, zv_objset := True, zv_dn := True,
            zv_suspend_ref := 1, zv_active := 1\<rparr>,
        [DMU_CTX_INIT 0 4096 4096, CTX_INIT_WRITE 0])"
    by (simp add: zvol_dmu_ctx_init_def zvol_dmu_max_active_def zvol_alloc_def Let_def)
  have beyond: "zvol_dmu_ctx_init 4 ?env ?os zvol_strategy_dmu_err
       \<lparr>zds_id = 0, zds_off = 8192, zds_io_size = 512, zds_reader = False,
         zds_sync = False, zds_retry = False, zds_async = False, zds_dc_err = None\<rparr> ?zv
     = Ret (Some EIO,
        \<lparr>zds_id = 0, zds_off = 8192, zds_io_size = 512, zds_reader = False,
          zds_sync = False, zds_retry = False, zds_async = False, zds_dc_err = None\<rparr>,
        (zvol_alloc ''tank/a'' 7 8192 4096 False)
          \<lparr>zv_open_count := 1, zv_objset := True, zv_dn := True, zv_suspend_ref := 1\<rparr>, [])"
    by (simp add: zvol_dmu_ctx_init_def zvol_dmu_max_active_def zvol_alloc_def Let_def)
  have pre: "zds_off ?zds < zv_volsize ?zv \<and> (zds_reader ?zds \<or> \<not> zv_rdonly ?zv)
          \<and> (zds_retry ?zds \<or> \<not> zvol_dmu_max_active 4 ?zv)"
    by (simp add: zvol_alloc_def zvol_dmu_max_active_def)
  have over: "unat (zds_off ?zds) + unat (zds_io_size ?zds) > unat (zv_volsize ?zv)"
    by (simp add: zvol_alloc_def)
  note t = zvol_bounds_checked [THEN conjunct1, rule_format, OF inside, THEN conjunct2,
      THEN conjunct2, rule_format, OF pre, THEN conjunct2, THEN conjunct2, THEN conjunct1,
      rule_format, OF over]
  have pre2: "0 <s uio_resid ?uio
      \<and> (uio_loffset ?uio <s 0 \<or> uio_loffset ?uio > zv_volsize ?zv)"
    by (simp add: zvol_alloc_def word_sless_alt)
  note w = zvol_bounds_checked [THEN conjunct2, THEN conjunct1, rule_format, OF pre2]
  from inside beyond t w show ?thesis by (intro conjI)
qed

theorem zvol_cdev_write_at_end_counterexample:
  "(0 :: u64) <s 512
   \<and> (8192 :: u64) \<ge> zv_volsize ((zvol_alloc ''tank/a'' 7 8192 4096 False)
          \<lparr>zv_open_count := 1, zv_objset := True, zv_dn := True\<rparr>)
   \<and> zvol_cdev_write 67108864
        \<lparr>we_zilog = \<lparr>ze_tryupgrade = True, ze_interfere = (\<lambda>zv. zv),
            ze_zil_open = \<lparr>zl_id = 0, zl_logbias_throughput = False, zl_has_slogs = False,
              zl_max_copied_data = 131072, zl_replaying = False\<rparr>\<rparr>,
          we_tx_assign = (\<lambda>off. None), we_write_uio = (\<lambda>off. None)\<rparr>
        \<lparr>os_zap_size = 8192, os_data_block_size = 4096, os_sync_always = False\<rparr> False
        \<lparr>uio_loffset = 8192, uio_resid = 512\<rparr>
        ((zvol_alloc ''tank/a'' 7 8192 4096 False)
          \<lparr>zv_open_count := 1, zv_objset := True, zv_dn := True\<rparr>)
     = Ret (Some (None,
         (zvol_alloc ''tank/a'' 7 8192 4096 False)
           \<lparr>zv_open_count := 1, zv_objset := True, zv_dn := True,
             zv_zilog := Some \<lparr>zl_id = 0, zl_logbias_throughput = False,
               zl_has_slogs = False, zl_max_copied_data = 131072, zl_replaying = False\<rparr>,
             zv_written_to := True\<rparr>,
         [RANGELOCK_ENTER 8192 512 RW_WRITER, RANGELOCK_EXIT]))"
proof -
  have loop: "zvol_cdev_write_loop 67108864 wenv 8192 False
      \<lparr>uio_loffset = 8192, uio_resid = 512\<rparr> ops = Some (None, ops)" for wenv ops
    by (rule zvol_cdev_write_loop_done) simp
  have pos: "(0 :: u64) <s 512" by (simp add: word_sless_alt)
  have at: "(8192 :: u64) \<ge> zv_volsize ((zvol_alloc ''tank/a'' 7 8192 4096 False)
          \<lparr>zv_open_count := 1, zv_objset := True, zv_dn := True\<rparr>)"
    by (simp add: zvol_alloc_def)
  have run: "zvol_cdev_write 67108864
        \<lparr>we_zilog = \<lparr>ze_tryupgrade = True, ze_interfere = (\<lambda>zv. zv),
            ze_zil_open = \<lparr>zl_id = 0, zl_logbias_throughput = False, zl_has_slogs = False,
              zl_max_copied_data = 131072, zl_replaying = False\<rparr>\<rparr>,
          we_tx_assign = (\<lambda>off. None), we_write_uio = (\<lambda>off. None)\<rparr>
        \<lparr>os_zap_size = 8192, os_data_block_size = 4096, os_sync_always = False\<rparr> False
        \<lparr>uio_loffset = 8192, uio_resid = 512\<rparr>
        ((zvol_alloc ''tank/a'' 7 8192 4096 False)
          \<lparr>zv_open_count := 1, zv_objset := True, zv_dn := True\<rparr>)
     = Ret (Some (None,
         (zvol_alloc ''tank/a'' 7 8192 4096 False)
           \<lparr>zv_open_count := 1, zv_objset := True, zv_dn := True,
             zv_zilog := Some \<lparr>zl_id = 0, zl_logbias_throughput = False,
               zl_has_slogs = False, zl_max_copied_data = 131072, zl_replaying = False\<rparr>,
             zv_written_to := True\<rparr>,
         [RANGELOCK_ENTER 8192 512 RW_WRITER, RANGELOCK_EXIT]))"
    by (simp add: zvol_cdev_write_def zvol_ensure_zilog_def zvol_alloc_def Let_def loop
        rw_enter_def rw_exit_def rw_downgrade_def word_sless_alt)
  from pos at run show ?thesis by (intro conjI)
qed

section \<open>Properties of the references and of minor removal\<close>

lemma zvol_remove_minors_loop_freed:
  "v \<in> set (snd (zvol_remove_minors_loop name l)) \<Longrightarrow>
     zv_open_count v = 0 \<and> zv_suspend_ref v = 0 \<and> v \<in> set l"
  by (induction l) (auto simp: Let_def split: prod.splits if_splits)

lemma zvol_remove_minors_loop_kept:
  "v \<in> set l \<Longrightarrow> zv_open_count v > 0 \<or> zv_suspend_ref v \<noteq> 0 \<Longrightarrow>
     v \<in> set (fst (zvol_remove_minors_loop name l))"
  by (induction l) (auto simp: Let_def split: prod.splits if_splits)

lemma zvol_remove_minors_impl_freed:
  "v \<in> set (snd (zvol_remove_minors_impl inhibit name l)) \<Longrightarrow>
     zv_open_count v = 0 \<and> zv_suspend_ref v = 0"
  using zvol_remove_minors_loop_freed [of v name l]
  by (simp add: zvol_remove_minors_impl_def split: if_splits)

lemma zvol_remove_minors_impl_kept:
  "v \<in> set l \<Longrightarrow> zv_open_count v > 0 \<or> zv_suspend_ref v \<noteq> 0 \<Longrightarrow>
     v \<in> set (fst (zvol_remove_minors_impl inhibit name l))"
  using zvol_remove_minors_loop_kept [of v l name]
  by (simp add: zvol_remove_minors_impl_def)


section \<open>Properties of freeing a range\<close>

lemma zvol_ensure_zilog_present:
  "zvol_ensure_zilog env zv = (zv', evs, opens) \<Longrightarrow> zv_zilog zv' \<noteq> None"
  by (auto simp: zvol_ensure_zilog_def Let_def rw_enter_def rw_exit_def rw_downgrade_def
      split: if_splits prod.splits)

lemma zvol_geom_bio_sync_delete_unchecked:
  assumes "bio_cmd bp = BIO_DELETE" and "fe_tx_assign env = None"
  shows "\<exists>bp' zv' ops. zvol_geom_bio_sync env os zv bp
            = Ret (fe_free_long_range env, bp', zv', ops)
          \<and> FREE_LONG_RANGE (bio_offset bp) (bio_length bp) \<in> set ops"
proof -
  obtain zv2 locks opens where
    e: "zvol_ensure_zilog (fe_zilog env) (rw_enter RW_READER zv) = (zv2, locks, opens)"
    by (cases "zvol_ensure_zilog (fe_zilog env) (rw_enter RW_READER zv)") auto
  from zvol_ensure_zilog_present [OF e] obtain zilog where z: "zv_zilog zv2 = Some zilog"
    by auto
  show ?thesis
    using assms e z
    by (simp add: zvol_geom_bio_sync_def zvol_log_truncate_def Let_def word_sless_alt)
qed

lemma zvol_cdev_ioctl_delete_beyond_end:
  "offset \<ge> zv_volsize zv \<Longrightarrow>
     zvol_cdev_ioctl_delete True env os zv offset len = Ret (Some EINVAL, zv, [])"
  by (simp add: zvol_cdev_ioctl_delete_def)

text \<open>
  Claim C6 at a request the claim speaks of: a volume of 1 GiB, and \<open>BIO_DELETE\<close> of
  4096 bytes at offset 2 GiB, with the transaction assigned.  \<open>zvol_geom_bio_sync\<close>
  logs the truncation, commits, calls \<open>dmu_free_long_range\<close> on the range and delivers
  success; its test for an offset beyond the volume comes after the free and needs
  \<open>bio_completed < bio_length\<close>, which a free that was attempted never leaves.  The
  \<open>DIOCGDELETE\<close> path makes the test first (lemma above).
\<close>

theorem zvol_geom_bio_sync_delete_beyond_end:
  "zvol_geom_bio_sync
     \<lparr>fe_zilog = \<lparr>ze_tryupgrade = True, ze_interfere = (\<lambda>zv. zv),
         ze_zil_open = \<lparr>zl_id = 0, zl_logbias_throughput = False, zl_has_slogs = False,
           zl_max_copied_data = 7000, zl_replaying = False\<rparr>\<rparr>,
       fe_tx_assign = None, fe_free_long_range = None\<rparr>
     \<lparr>os_zap_size = 1073741824, os_data_block_size = 8192, os_sync_always = False\<rparr>
     ((zvol_alloc ''tank/a'' 7 1073741824 8192 False)
        \<lparr>zv_open_count := 1, zv_objset := True, zv_dn := True\<rparr>)
     \<lparr>bio_cmd = BIO_DELETE, bio_offset = 2147483648, bio_length = 4096, bio_completed = 0\<rparr>
   = Ret (None,
       \<lparr>bio_cmd = BIO_DELETE, bio_offset = 2147483648, bio_length = 4096,
         bio_completed = 4096\<rparr>,
       (zvol_alloc ''tank/a'' 7 1073741824 8192 False)
         \<lparr>zv_open_count := 1, zv_written_to := True, zv_objset := True, zv_dn := True,
           zv_zilog := Some \<lparr>zl_id = 0, zl_logbias_throughput = False,
             zl_has_slogs = False, zl_max_copied_data = 7000, zl_replaying = False\<rparr>\<rparr>,
       [RANGELOCK_ENTER 2147483648 4096 RW_WRITER, LOG_TRUNCATE 2147483648 4096 False,
        TX_COMMIT, FREE_LONG_RANGE 2147483648 4096, RANGELOCK_EXIT])"
  by (simp add: zvol_geom_bio_sync_def zvol_log_truncate_def zvol_ensure_zilog_def Let_def
      word_sless_alt zvol_alloc_def rw_enter_def rw_exit_def rw_downgrade_def)

end
